theory Spec2Isabelle
  imports Main
begin

section \<open>Text primitives\<close>

text \<open>
  Text is a list of characters, one \<^typ>\<open>char\<close> per code point; the embedding covers the
  code points below 256. The Python string methods the bot uses are written out as
  list functions.
\<close>

definition backslash :: char where
  "backslash = CHR 0x5C"

definition replace_char :: "char \<Rightarrow> string \<Rightarrow> string" where
  "replace_char c s = concat (map (\<lambda>x. if x = c then [backslash, c] else [x]) s)"

fun has_pair :: "char \<Rightarrow> char \<Rightarrow> string \<Rightarrow> bool" where
  "has_pair a b (x # y # zs) = ((x = a \<and> y = b) \<or> has_pair a b (y # zs))"
| "has_pair a b zs = False"

text \<open>
  \<^verbatim>\<open>_escape_markdown\<close>: for each character of the fixed list, in order, every occurrence
  is prefixed with a backslash when the character occurs in the text and the text holds
  no occurrence of it that already follows a backslash. The empty text is returned as is.
\<close>

definition escape_chars :: "char list" where
  "escape_chars = [CHR ''_'', CHR ''*'', CHR ''['', CHR '']'', CHR ''('', CHR '')'', CHR ''~'',
     CHR 0x60, CHR ''>'', CHR ''#'', CHR ''+'', CHR ''-'', CHR ''='', CHR ''|'', CHR ''{'',
     CHR ''}'', CHR ''.'', CHR ''!'']"

definition escape_step :: "string \<Rightarrow> char \<Rightarrow> string" where
  "escape_step s c =
     (if c \<in> set s \<and> \<not> has_pair backslash c s then replace_char c s else s)"

definition escape_with :: "char list \<Rightarrow> string \<Rightarrow> string" where
  "escape_with cs s = (if s = [] then s else foldl escape_step s cs)"

definition escape_markdown :: "string \<Rightarrow> string" where
  "escape_markdown s = escape_with escape_chars s"


definition settled :: "char \<Rightarrow> string \<Rightarrow> bool" where
  "settled c s = (c \<notin> set s \<or> has_pair backslash c s)"

lemma has_pair_iff: "has_pair a b s = (\<exists>xs ys. s = xs @ a # b # ys)"
proof (induction a b s rule: has_pair.induct)
  case (1 a b x y zs)
  show ?case
  proof
    assume "has_pair a b (x # y # zs)"
    then consider "x = a \<and> y = b" | "has_pair a b (y # zs)" by auto
    then show "\<exists>xs ys. x # y # zs = xs @ a # b # ys"
    proof cases
      case 1
      then have "x # y # zs = [] @ a # b # zs" by simp
      then show ?thesis by blast
    next
      case 2
      with "1.IH" obtain xs ys where "y # zs = xs @ a # b # ys" by blast
      then have "x # y # zs = (x # xs) @ a # b # ys" by simp
      then show ?thesis by blast
    qed
  next
    assume "\<exists>xs ys. x # y # zs = xs @ a # b # ys"
    then obtain xs ys where e: "x # y # zs = xs @ a # b # ys" by blast
    show "has_pair a b (x # y # zs)"
    proof (cases xs)
      case Nil
      with e show ?thesis by simp
    next
      case (Cons u us)
      with e have "y # zs = us @ a # b # ys" by simp
      then have "has_pair a b (y # zs)" using "1.IH" by blast
      then show ?thesis by simp
    qed
  qed
qed (auto simp: Cons_eq_append_conv)

lemma replace_char_append:
  "replace_char c (xs @ ys) = replace_char c xs @ replace_char c ys"
  by (simp add: replace_char_def)

lemma replace_char_Cons:
  "replace_char c (x # xs) = (if x = c then [backslash, c] else [x]) @ replace_char c xs"
  by (simp add: replace_char_def)

lemma set_replace_char:
  "set (replace_char c s) = (if c \<in> set s then insert backslash (set s) else set s)"
  by (induction s) (auto simp: replace_char_def)

lemma has_pair_replace_self:
  assumes "c \<in> set s"
  shows "has_pair backslash c (replace_char c s)"
proof -
  from assms obtain xs ys where "s = xs @ c # ys" by (auto dest: split_list)
  then have "replace_char c s = replace_char c xs @ backslash # c # replace_char c ys"
    by (simp add: replace_char_append replace_char_Cons)
  then show ?thesis unfolding has_pair_iff by blast
qed

lemma has_pair_replace_other:
  assumes "has_pair backslash c s" and "d \<noteq> c"
  shows "has_pair backslash c (replace_char d s)"
proof -
  from assms(1) obtain xs ys where s: "s = xs @ backslash # c # ys"
    unfolding has_pair_iff by blast
  show ?thesis
  proof (cases "d = backslash")
    case True
    with s assms(2) have "replace_char d s =
        (replace_char d xs @ [backslash]) @ backslash # c # replace_char d ys"
      by (simp add: replace_char_append replace_char_Cons)
    then show ?thesis unfolding has_pair_iff by blast
  next
    case False
    with s assms(2) have "replace_char d s =
        replace_char d xs @ backslash # c # replace_char d ys"
      by (simp add: replace_char_append replace_char_Cons)
    then show ?thesis unfolding has_pair_iff by blast
  qed
qed

lemma settled_escape_step_self: "settled c (escape_step s c)"
  by (auto simp: settled_def escape_step_def has_pair_replace_self)

lemma settled_escape_step_other:
  assumes "settled c s" and "c \<noteq> backslash"
  shows "settled c (escape_step s d)"
proof (cases "d = c")
  case True
  then show ?thesis by (simp add: settled_escape_step_self)
next
  case False
  with assms show ?thesis
    by (auto simp: settled_def escape_step_def set_replace_char has_pair_replace_other)
qed

lemma escape_step_settled: "settled c s \<Longrightarrow> escape_step s c = s"
  by (auto simp: settled_def escape_step_def)

lemma foldl_escape_step_settled:
  assumes "\<forall>c\<in>set ds. settled c s" and "backslash \<notin> set ds" and "backslash \<notin> set cs"
  shows "\<forall>c\<in>set ds \<union> set cs. settled c (foldl escape_step s cs)"
  using assms
proof (induction cs arbitrary: s ds)
  case Nil
  then show ?case by simp
next
  case (Cons x cs)
  have "\<forall>c\<in>set (x # ds). settled c (escape_step s x)"
  proof
    fix c assume c: "c \<in> set (x # ds)"
    show "settled c (escape_step s x)"
    proof (cases "c = x")
      case True
      then show ?thesis by (simp add: settled_escape_step_self)
    next
      case False
      with c have "c \<in> set ds" by simp
      with Cons.prems have "settled c s" "c \<noteq> backslash" by auto
      then show ?thesis by (rule settled_escape_step_other)
    qed
  qed
  moreover have "backslash \<notin> set (x # ds)" "backslash \<notin> set cs"
    using Cons.prems by auto
  ultimately have "\<forall>c\<in>set (x # ds) \<union> set cs. settled c (foldl escape_step (escape_step s x) cs)"
    by (rule Cons.IH)
  then show ?case by simp
qed

lemma foldl_escape_step_fixed:
  "\<forall>c\<in>set cs. settled c s \<Longrightarrow> foldl escape_step s cs = s"
  by (induction cs) (simp_all add: escape_step_settled)

lemma escape_with_idem:
  assumes "backslash \<notin> set cs"
  shows "escape_with cs (escape_with cs s) = escape_with cs s"
proof (cases "s = []")
  case True
  then show ?thesis by (simp add: escape_with_def)
next
  case False
  have "\<forall>c\<in>set [] \<union> set cs. settled c (foldl escape_step s cs)"
    by (rule foldl_escape_step_settled) (use assms in simp_all)
  then have "foldl escape_step (foldl escape_step s cs) cs = foldl escape_step s cs"
    by (simp add: foldl_escape_step_fixed)
  with False show ?thesis by (simp add: escape_with_def)
qed

lemma backslash_notin_escape_chars: "backslash \<notin> set escape_chars"
  by (simp add: escape_chars_def backslash_def)

text \<open>
  Claim C6. The markup-escaping routine is idempotent: escaping an already escaped text
  changes nothing, for every input text. After one pass every listed character either
  does not occur or occurs behind a backslash somewhere, which is exactly the condition
  under which the routine leaves that character alone.
\<close>

theorem escape_markdown_idempotent:
  "escape_markdown (escape_markdown x) = escape_markdown x"
  unfolding escape_markdown_def
  by (rule escape_with_idem) (rule backslash_notin_escape_chars)

theorem escape_markdown_idempotent_witness:
  "escape_markdown (escape_markdown ''a_b.c'') = escape_markdown ''a_b.c'' \<and>
   escape_markdown ''a_b.c'' =
     [CHR ''a'', backslash, CHR ''_'', CHR ''b'', backslash, CHR ''.'', CHR ''c'']"
proof -
  have "escape_markdown ''a_b.c'' =
     [CHR ''a'', backslash, CHR ''_'', CHR ''b'', backslash, CHR ''.'', CHR ''c'']"
    by (simp add: escape_markdown_def escape_with_def escape_chars_def escape_step_def
        replace_char_def backslash_def)
  then show ?thesis using escape_markdown_idempotent [of "''a_b.c''"] by simp
qed

text \<open>
  The guard looks at the whole text, not at the single occurrence: one escaped
  underscore anywhere keeps every other underscore of the text unescaped.
\<close>

lemma escape_guard_is_per_text:
  "escape_markdown (''a_b'' @ [backslash] @ ''_c'') = ''a_b'' @ [backslash] @ ''_c''"
  by (simp add: escape_markdown_def escape_with_def escape_chars_def escape_step_def
      backslash_def)


section \<open>More text primitives\<close>

text \<open>
  \<^verbatim>\<open>str.isspace\<close> on the code points below 256: tab to carriage return, the four
  separators 28 to 31, the space, NEL (133) and the no-break space (160).
\<close>

definition py_isspace :: "char \<Rightarrow> bool" where
  "py_isspace c =
     (let n = (of_char c :: nat)
      in (9 \<le> n \<and> n \<le> 13) \<or> (28 \<le> n \<and> n \<le> 32) \<or> n = 133 \<or> n = 160)"

definition py_strip :: "string \<Rightarrow> string" where
  "py_strip s = rev (dropWhile py_isspace (rev (dropWhile py_isspace s)))"

text \<open>\<^verbatim>\<open>s.split(sep, maxsplit)\<close> for a one-character separator.\<close>

fun split_max :: "char \<Rightarrow> nat \<Rightarrow> string \<Rightarrow> string list" where
  "split_max sep 0 s = [s]"
| "split_max sep (Suc n) s =
     (if sep \<in> set s
      then takeWhile (\<lambda>c. c \<noteq> sep) s # split_max sep n (tl (dropWhile (\<lambda>c. c \<noteq> sep) s))
      else [s])"


definition is_ascii_digit :: "char \<Rightarrow> bool" where
  "is_ascii_digit c = (let n = (of_char c :: nat) in 48 \<le> n \<and> n \<le> 57)"




text \<open>\<^verbatim>\<open>str(n)\<close> for an integer: its decimal digits, with a minus sign when negative.\<close>

definition digit_char :: "nat \<Rightarrow> char" where
  "digit_char d = ''0123456789'' ! d"

fun digits_of :: "nat \<Rightarrow> string" where
  "digits_of n = (if n < 10 then [digit_char n] else digits_of (n div 10) @ [digit_char (n mod 10)])"

declare digits_of.simps [simp del]

definition str_int :: "int \<Rightarrow> string" where
  "str_int i = (if i < 0 then CHR ''-'' # digits_of (nat (- i)) else digits_of (nat i))"

text \<open>
  \<^verbatim>\<open>int(s)\<close> for a string, with \<^term>\<open>None\<close> for the ValueError: surrounding
  whitespace is dropped, one sign is allowed, and what remains must be decimal digits,
  possibly grouped by single underscores between digits. The whitespace that
  \<^verbatim>\<open>int\<close> drops is narrower than that of \<^verbatim>\<open>str.strip\<close>: tab to carriage return,
  the space, NEL (133) and the no-break space (160), but not the separators 28 to 31,
  on which it raises.
\<close>

definition int_isspace :: "char \<Rightarrow> bool" where
  "int_isspace c =
     (let n = (of_char c :: nat) in (9 \<le> n \<and> n \<le> 13) \<or> n = 32 \<or> n = 133 \<or> n = 160)"

definition int_strip :: "string \<Rightarrow> string" where
  "int_strip s = rev (dropWhile int_isspace (rev (dropWhile int_isspace s)))"

definition digit_value :: "char \<Rightarrow> int" where
  "digit_value c = int (of_char c) - 48"

definition parse_digits :: "string \<Rightarrow> int option" where
  "parse_digits r =
     (if r \<noteq> [] \<and> is_ascii_digit (hd r) \<and> is_ascii_digit (last r) \<and>
         list_all (\<lambda>c. is_ascii_digit c \<or> c = CHR ''_'') r \<and>
         \<not> has_pair (CHR ''_'') (CHR ''_'') r
      then Some (foldl (\<lambda>a c. 10 * a + digit_value c) 0 (filter is_ascii_digit r))
      else None)"

definition py_int :: "string \<Rightarrow> int option" where
  "py_int s =
     (case int_strip s of
        [] \<Rightarrow> None
      | c # r \<Rightarrow>
          if c = CHR ''-'' then map_option uminus (parse_digits r)
          else if c = CHR ''+'' then parse_digits r
          else parse_digits (c # r))"

section \<open>The content graph\<close>

text \<open>
  The JSON documents are dictionaries. A key the source reads with a default
  (\<^verbatim>\<open>d.get(k, default)\<close>) is an optional field; a dictionary whose iteration order
  the source depends on is an association list in insertion order.
\<close>

record button =
  b_id :: "string option"
  b_text :: string
  b_action :: string
  b_created_at :: "string option"
  b_updated_at :: "string option"

record page =
  p_title :: string
  p_content :: string
  p_buttons :: "button list option"
  p_created_at :: "string option"
  p_updated_at :: "string option"

record action =
  a_type :: "string option"
  a_content :: string
  a_url :: "string option"
  a_text :: "string option"
  a_created_at :: "string option"
  a_updated_at :: "string option"

record settings =
  welcome_message :: "string option"
  main_menu :: "string option"

record database =
  pages :: "(string \<times> page) list option"
  actions :: "(string \<times> action) list option"
  settings :: "settings option"

text \<open>\<^verbatim>\<open>d[k] = v\<close> on an insertion-ordered dictionary.\<close>

fun dict_set :: "('k \<times> 'v) list \<Rightarrow> 'k \<Rightarrow> 'v \<Rightarrow> ('k \<times> 'v) list" where
  "dict_set [] k v = [(k, v)]"
| "dict_set ((k', v') # kvs) k v =
     (if k' = k then (k, v) # kvs else (k', v') # dict_set kvs k v)"

text \<open>\<^verbatim>\<open>self.database.get('pages', {})\<close> and \<^verbatim>\<open>page.get('buttons', [])\<close>.\<close>

definition pages_of :: "database \<Rightarrow> (string \<times> page) list" where
  "pages_of d = (case pages d of None \<Rightarrow> [] | Some ps \<Rightarrow> ps)"

definition buttons_of :: "page \<Rightarrow> button list" where
  "buttons_of p = (case p_buttons p of None \<Rightarrow> [] | Some bs \<Rightarrow> bs)"

definition actions_of :: "database \<Rightarrow> (string \<times> action) list" where
  "actions_of d = (case actions d of None \<Rightarrow> [] | Some as \<Rightarrow> as)"

text \<open>\<^verbatim>\<open>self.database.get('settings', {}).get('main_menu', 'main')\<close>.\<close>

definition main_menu_of :: "database \<Rightarrow> string" where
  "main_menu_of d =
     (case settings d of
        None \<Rightarrow> ''main''
      | Some s \<Rightarrow> (case main_menu s of None \<Rightarrow> ''main'' | Some m \<Rightarrow> m))"

section \<open>Button identifiers\<close>

text \<open>
  \<^verbatim>\<open>_initialize_button_counter\<close>: the largest \<^verbatim>\<open>int(button['id'])\<close> over all buttons
  that have an id and whose id parses, starting from 0, plus one.
\<close>

definition counter_step :: "int \<Rightarrow> button \<Rightarrow> int" where
  "counter_step max_id b =
     (case b_id b of
        None \<Rightarrow> max_id
      | Some i \<Rightarrow> (case py_int i of None \<Rightarrow> max_id | Some n \<Rightarrow> max max_id n))"

definition initialize_button_counter :: "database \<Rightarrow> int" where
  "initialize_button_counter d =
     foldl (\<lambda>m p. foldl counter_step m (buttons_of p)) 0 (map snd (pages_of d)) + 1"

text \<open>\<^verbatim>\<open>_generate_button_id\<close>: the id and the counter after the call.\<close>

definition generate_button_id :: "int \<Rightarrow> string \<times> int" where
  "generate_button_id button_counter = (''btn_'' @ str_int button_counter, button_counter + 1)"

section \<open>Validation and sanitising\<close>


text \<open>The validators return the pair of the source: the verdict and the message.\<close>

definition validate_button_text :: "string \<Rightarrow> bool \<times> string" where
  "validate_button_text t =
     (if t = [] then (False, ''Testo pulsante non valido'')
      else if length (py_strip t) = 0 then (False, ''Testo pulsante vuoto'')
      else if length t > 64 then (False, ''Testo pulsante troppo lungo (max 64 caratteri)'')
      else (True, []))"

definition validate_action :: "string \<Rightarrow> bool \<times> string" where
  "validate_action a =
     (if a = [] then (False, ''Azione non valida'')
      else if length (py_strip a) = 0 then (False, ''Azione vuota'')
      else if length a > 128 then (False, ''Azione troppo lunga (max 128 caratteri)'')
      else (True, []))"


text \<open>
  \<^verbatim>\<open>_sanitize_input\<close>: control characters other than newline and tab are dropped and
  the text is cut to 4096 characters.
\<close>

definition sanitize_input :: "string \<Rightarrow> string" where
  "sanitize_input t =
     (if t = [] then []
      else take 4096 (filter (\<lambda>c. 32 \<le> (of_char c :: nat) \<or> c = CHR 0x0A \<or> c = CHR 0x09) t))"

section \<open>The bot state\<close>

text \<open>
  A session is the entry of \<^verbatim>\<open>user_states\<close>; its timestamp is in microseconds. A user
  record is the entry of \<^verbatim>\<open>users_database['users']\<close>. The bot record holds the
  attributes of \<^verbatim>\<open>TelegramBotEditor\<close> that the modelled handlers touch, and the
  documents last written by \<^verbatim>\<open>save_database\<close> and \<^verbatim>\<open>save_users_database\<close>.
\<close>

record session =
  s_state :: string
  s_timestamp :: int
  s_data :: "(string \<times> string) list"

record user =
  u_username :: "string option"
  u_first_name :: "string option"
  u_last_name :: "string option"
  u_role :: string
  u_registered_at :: string
  u_last_seen :: string
  u_total_interactions :: int
  u_pages_visited :: "string list"
  u_buttons_clicked :: "string list"
  u_commands_used :: "(string \<times> int) list option"

record bot =
  db :: database
  button_counter :: int
  user_states :: "int \<rightharpoonup> session"
  editor_mode :: "int \<rightharpoonup> bool"
  users :: "(string \<times> user) list"
  saved_database :: "database option"
  saved_users :: "(string \<times> user) list option"

definition save_database :: "bot \<Rightarrow> bot" where
  "save_database b = b\<lparr>saved_database := Some (db b)\<rparr>"

definition save_users_database :: "bot \<Rightarrow> bot" where
  "save_users_database b = b\<lparr>saved_users := Some (users b)\<rparr>"

definition set_user_state :: "bot \<Rightarrow> int \<Rightarrow> string \<Rightarrow> int \<Rightarrow> (string \<times> string) list \<Rightarrow> bot" where
  "set_user_state b user_id state now data =
     b\<lparr>user_states := (user_states b)(user_id \<mapsto>
         \<lparr>s_state = state, s_timestamp = now, s_data = data\<rparr>)\<rparr>"


definition clear_user_state :: "bot \<Rightarrow> int \<Rightarrow> bot" where
  "clear_user_state b user_id = b\<lparr>user_states := (user_states b)(user_id := None)\<rparr>"




section \<open>Editor replies\<close>

text \<open>
  What a text handler answers. The validation errors are the messages sent through
  \<^verbatim>\<open>_handle_validation_error\<close>: the format message (\<open>FormatError\<close>), the invalid page id
  message (\<open>InvalidId\<close>), an invalid title or content with the validator's message, the
  message that a page with this id exists already (\<open>DuplicateId\<close>), the page not found
  message, an invalid button text or action, and the message that a button with this
  text exists already on the page. \<open>InternalError\<close> is the answer of
  \<^verbatim>\<open>_handle_general_error\<close> to an exception, \<open>HandlerError\<close> the error message a
  handler without that helper sends from its own exception clause. The remaining
  answers are those of the router (the invalid state notice and the hint to use the
  buttons), the success and failure messages of the other text handlers, and the
  outcome of a user search, given by the keys of the users found.
\<close>

datatype reply =
    FormatError
  | InvalidId
  | InvalidTitle string
  | InvalidContent string
  | DuplicateId
  | PageNotFound
  | InvalidText string
  | InvalidAction string
  | DuplicateButtonText
  | InternalError
  | PageCreated string string
  | ButtonAdded string
  | ButtonNotFound
  | ButtonDeleted string
  | HandlerError
  | InvalidStateNotice
  | UseButtonsHint
  | PageUpdated string
  | ButtonInfoMissing
  | ButtonUpdated
  | InvalidType
  | ActionCreated string
  | ActionMissing
  | ActionUpdated string
  | InvalidWelcome string
  | WelcomeUpdated string
  | EmptyInput
  | UserNotFound string
  | AlreadyAdmin
  | AdminAdded int
  | SearchTermInvalid
  | NoUserFound
  | UserDetails string
  | SearchResults "string list"

section \<open>Creating a page from text\<close>



definition empty_graph :: database where
  "empty_graph =
     \<lparr>pages = Some [], actions = Some [],
      settings = Some \<lparr>welcome_message = Some ''Benvenuto! Usa i pulsanti per navigare.'',
                       main_menu = Some ''main''\<rparr>\<rparr>"


subsection \<open>Facts about the text primitives\<close>







lemma dict_set_new: "k \<notin> fst ` set kvs \<Longrightarrow> dict_set kvs k v = kvs @ [(k, v)]"
  by (induction kvs) auto








subsection \<open>Creating a page exactly once\<close>


definition sample_now :: string where
  "sample_now = ''2024-01-01T10:00:00''"




section \<open>Adding a button from text\<close>

text \<open>
  The per-user dictionary \<^verbatim>\<open>context.user_data\<close> of the transport is a map from its
  string keys; the handlers read and delete the keys they own.
\<close>

type_synonym user_data = "string \<rightharpoonup> string"

definition new_button :: "string \<Rightarrow> string \<Rightarrow> string \<Rightarrow> string \<Rightarrow> button" where
  "new_button button_id label act now =
     \<lparr>b_id = Some button_id, b_text = label, b_action = act,
      b_created_at = Some now, b_updated_at = None\<rparr>"

text \<open>
  \<^verbatim>\<open>create_button_from_text\<close>: the text \<open>LABEL|ACTION\<close> is added as a button to the page
  named under the key \<open>adding_button_<user id>\<close>, with a freshly generated id.
\<close>

definition create_button_from_text ::
  "bot \<Rightarrow> user_data \<Rightarrow> int \<Rightarrow> string \<Rightarrow> string \<Rightarrow> reply \<times> bot \<times> user_data" where
  "create_button_from_text b ud user_id text0 now =
     (let t = sanitize_input text0;
          parts = split_max (CHR ''|'') 1 t;
          key = ''adding_button_'' @ str_int user_id
      in if length parts \<noteq> 2 then (FormatError, b, ud)
         else
           let button_text = parts ! 0; act = parts ! 1
           in case ud key of
                None \<Rightarrow> (PageNotFound, b, ud)
              | Some page_id \<Rightarrow>
                  if page_id = [] then (PageNotFound, b, ud)
                  else
                    (case pages (db b) of
                       None \<Rightarrow> (InternalError, b, ud)
                     | Some ps \<Rightarrow>
                         (case map_of ps page_id of
                            None \<Rightarrow> (PageNotFound, b, ud)
                          | Some pg \<Rightarrow>
                              if \<not> fst (validate_button_text (py_strip button_text))
                              then (InvalidText (snd (validate_button_text (py_strip button_text))), b, ud)
                              else if \<not> fst (validate_action (py_strip act))
                              then (InvalidAction (snd (validate_action (py_strip act))), b, ud)
                              else if list_ex (\<lambda>e. py_strip (b_text e) = py_strip button_text)
                                        (buttons_of pg)
                              then (DuplicateButtonText, b, ud)
                              else
                                let g = generate_button_id (button_counter b);
                                    btn = new_button (fst g) (py_strip button_text) (py_strip act) now;
                                    pg' = pg\<lparr>p_buttons := Some (buttons_of pg @ [btn])\<rparr>
                                in (ButtonAdded (py_strip button_text),
                                    clear_user_state
                                      (save_database
                                        (b\<lparr>db := (db b)\<lparr>pages := Some (dict_set ps page_id pg')\<rparr>,
                                           button_counter := snd g\<rparr>))
                                      user_id,
                                    ud(key := None)))))"

text \<open>
  Start-up (\<^verbatim>\<open>__init__\<close>) over a loaded graph and user store: no sessions, and the
  button counter initialised from the graph.
\<close>

definition start_bot :: "database \<Rightarrow> (string \<times> user) list \<Rightarrow> bot" where
  "start_bot d us =
     \<lparr>db = d, button_counter = initialize_button_counter d,
      user_states = Map.empty, editor_mode = Map.empty, users = us,
      saved_database = Some d, saved_users = Some us\<rparr>"

text \<open>The ids handed out by \<open>n\<close> successive calls of \<^verbatim>\<open>_generate_button_id\<close>.\<close>

fun generate_ids :: "nat \<Rightarrow> int \<Rightarrow> string list" where
  "generate_ids 0 c = []"
| "generate_ids (Suc n) c = fst (generate_button_id c) # generate_ids n (snd (generate_button_id c))"

lemma generate_ids_eq:
  "generate_ids n c = map (\<lambda>k. ''btn_'' @ str_int (c + int k)) [0..<n]"
proof (induction n arbitrary: c)
  case 0
  show ?case by simp
next
  case (Suc n)
  have "[0..<Suc n] = 0 # map Suc [0..<n]"
    by (simp add: upt_conv_Cons map_Suc_upt del: upt_Suc)
  then show ?case
    by (simp add: Suc.IH generate_button_id_def comp_def add.assoc del: upt_Suc)
qed

lemma initialize_counter_fresh: "initialize_button_counter empty_graph = 1"
  by (simp add: initialize_button_counter_def empty_graph_def pages_of_def)

subsection \<open>Ids of the generated form never parse as integers\<close>

lemma int_strip_keeps_head:
  assumes "\<not> int_isspace c"
  shows "\<exists>r. int_strip (c # s) = c # r"
proof -
  have "dropWhile int_isspace (rev s @ [c]) = dropWhile int_isspace (rev s) @ [c]"
    using assms by (induction "rev s" arbitrary: s) (auto simp: dropWhile_append3)
  then have "int_strip (c # s) = c # rev (dropWhile int_isspace (rev s))"
    using assms by (simp add: int_strip_def)
  then show ?thesis by blast
qed

lemma py_int_btn: "py_int (''btn_'' @ s) = None"
proof -
  have "\<not> int_isspace (CHR ''b'')" by (simp add: int_isspace_def)
  then obtain r where "int_strip (CHR ''b'' # (''tn_'' @ s)) = CHR ''b'' # r"
    using int_strip_keeps_head by blast
  then have "int_strip (''btn_'' @ s) = CHR ''b'' # r" by simp
  then show ?thesis
    by (simp add: py_int_def parse_digits_def is_ascii_digit_def)
qed

definition generated_form :: "button \<Rightarrow> bool" where
  "generated_form x = (case b_id x of None \<Rightarrow> True | Some i \<Rightarrow> take 4 i = ''btn_'')"

lemma counter_step_generated: "generated_form x \<Longrightarrow> counter_step m x = m"
proof (cases "b_id x")
  case None
  then show ?thesis by (simp add: counter_step_def)
next
  case (Some i)
  assume "generated_form x"
  with Some have "take 4 i = ''btn_''" by (simp add: generated_form_def)
  then have "i = ''btn_'' @ drop 4 i" by (metis append_take_drop_id)
  then have "py_int i = None" using py_int_btn by metis
  with Some show ?thesis by (simp add: counter_step_def)
qed

lemma foldl_counter_step_generated:
  "list_all generated_form xs \<Longrightarrow> foldl counter_step m xs = m"
  by (induction xs arbitrary: m) (simp_all add: counter_step_generated)

lemma initialize_counter_generated:
  assumes "list_all (\<lambda>p. list_all generated_form (buttons_of (snd p))) (pages_of d)"
  shows "initialize_button_counter d = 1"
proof -
  have "foldl (\<lambda>m p. foldl counter_step m (buttons_of p)) m (map snd ps) = m"
    if "list_all (\<lambda>p. list_all generated_form (buttons_of (snd p))) ps"
    for ps :: "(string \<times> page) list" and m
    using that by (induction ps arbitrary: m) (simp_all add: foldl_counter_step_generated)
  with assms show ?thesis by (simp add: initialize_button_counter_def)
qed

subsection \<open>A restart over a persisted graph\<close>

definition graph_one_button :: database where
  "graph_one_button =
     \<lparr>pages = Some [(''main'',
         \<lparr>p_title = ''Menu'', p_content = ''Ciao'',
          p_buttons = Some [new_button ''btn_1'' ''A'' ''back_to_main'' sample_now],
          p_created_at = Some sample_now, p_updated_at = None\<rparr>)],
      actions = Some [],
      settings = Some \<lparr>welcome_message = None, main_menu = Some ''main''\<rparr>\<rparr>"


definition graph_main_only :: database where
  "graph_main_only =
     \<lparr>pages = Some [(''main'',
         \<lparr>p_title = ''Menu'', p_content = ''Ciao'', p_buttons = Some [],
          p_created_at = Some sample_now, p_updated_at = None\<rparr>)],
      actions = Some [],
      settings = Some \<lparr>welcome_message = None, main_menu = Some ''main''\<rparr>\<rparr>"

lemmas button_scenario_defs =
  create_button_from_text_def start_bot_def initialize_button_counter_def counter_step_def
  generate_button_id_def new_button_def pages_of_def buttons_of_def
  sanitize_input_def validate_button_text_def validate_action_def
  py_strip_def py_isspace_def int_strip_def int_isspace_def py_int_def parse_digits_def
  is_ascii_digit_def
  str_int_def digits_of.simps digit_char_def
  clear_user_state_def save_database_def Let_def

lemma first_session_persists_btn_1:
  "saved_database (fst (snd (create_button_from_text (start_bot graph_main_only [])
       [''adding_button_42'' \<mapsto> ''main''] 42 ''A|back_to_main'' sample_now))) =
   Some graph_one_button"
  by (simp add: graph_main_only_def graph_one_button_def button_scenario_defs)

text \<open>
  Claim C1, at a restart. The persisted graph holds one button, \<open>btn_1\<close>, as the first
  session wrote it (largest numeric suffix 1). Start-up reads each id with \<^verbatim>\<open>int\<close>, which
  fails on \<open>btn_1\<close>, so the counter starts at 1 again instead of 2, and the next button
  added is given the id \<open>btn_1\<close> a second time.
\<close>

theorem restart_reuses_button_id:
  "button_counter (start_bot graph_one_button []) = 1 \<and>
   fst (create_button_from_text (start_bot graph_one_button [])
       [''adding_button_42'' \<mapsto> ''main''] 42 ''B|back_to_main'' sample_now) = ButtonAdded ''B'' \<and>
   pages (db (fst (snd (create_button_from_text (start_bot graph_one_button [])
       [''adding_button_42'' \<mapsto> ''main''] 42 ''B|back_to_main'' sample_now)))) =
   Some [(''main'',
         \<lparr>p_title = ''Menu'', p_content = ''Ciao'',
          p_buttons = Some [new_button ''btn_1'' ''A'' ''back_to_main'' sample_now,
                            new_button ''btn_1'' ''B'' ''back_to_main'' sample_now],
          p_created_at = Some sample_now, p_updated_at = None\<rparr>)]"
  by (simp add: graph_one_button_def button_scenario_defs)


section \<open>Deleting a button\<close>

text \<open>
  \<^verbatim>\<open>_find_button_by_id\<close>: the pages in dictionary order, the buttons of each in list
  order; the first button whose id is the one asked for, with the id of its page.
\<close>

fun find_in_pages :: "(string \<times> page) list \<Rightarrow> string \<Rightarrow> (string \<times> button) option" where
  "find_in_pages [] button_id = None"
| "find_in_pages ((page_id, page_data) # rest) button_id =
     (case find (\<lambda>x. b_id x = Some button_id) (buttons_of page_data) of
        Some x \<Rightarrow> Some (page_id, x)
      | None \<Rightarrow> find_in_pages rest button_id)"

definition find_button_by_id :: "database \<Rightarrow> string \<Rightarrow> (string \<times> button) option" where
  "find_button_by_id d button_id = find_in_pages (pages_of d) button_id"

text \<open>
  \<^verbatim>\<open>delete_button\<close>: the button found is removed from the button list of the page it
  was found on (\<^verbatim>\<open>list.remove\<close> drops the first equal element) and the graph is saved.
  A missing key or a failed removal raises, and the handler answers the exception
  with an error message.
\<close>

definition delete_button :: "bot \<Rightarrow> string \<Rightarrow> reply \<times> bot" where
  "delete_button b button_id =
     (case find_button_by_id (db b) button_id of
        None \<Rightarrow> (ButtonNotFound, b)
      | Some (page_id, x) \<Rightarrow>
          (case pages (db b) of
             None \<Rightarrow> (HandlerError, b)
           | Some ps \<Rightarrow>
               (case map_of ps page_id of
                  None \<Rightarrow> (HandlerError, b)
                | Some pg \<Rightarrow>
                    (case p_buttons pg of
                       None \<Rightarrow> (HandlerError, b)
                     | Some bs \<Rightarrow>
                         if x \<in> set bs
                         then (ButtonDeleted (b_text x),
                               save_database
                                 (b\<lparr>db := (db b)\<lparr>pages := Some (dict_set ps page_id
                                     (pg\<lparr>p_buttons := Some (remove1 x bs)\<rparr>))\<rparr>\<rparr>))
                         else (HandlerError, b)))))"

lemma map_of_dict_set: "map_of (dict_set kvs k v) = (map_of kvs)(k \<mapsto> v)"
  by (induction kvs) (auto simp: fun_eq_iff)

lemma keys_dict_set: "k \<in> fst ` set kvs \<Longrightarrow> map fst (dict_set kvs k v) = map fst kvs"
  by (induction kvs) force+

lemma find_in_pages_Some:
  assumes "find_in_pages ps button_id = Some (pid, x)"
  shows "\<exists>pg. (pid, pg) \<in> set ps \<and> find (\<lambda>y. b_id y = Some button_id) (buttons_of pg) = Some x"
  using assms
proof (induction ps)
  case Nil
  then show ?case by simp
next
  case (Cons entry rest)
  obtain q pg where entry: "entry = (q, pg)" by (cases entry)
  show ?case
  proof (cases "find (\<lambda>y. b_id y = Some button_id) (buttons_of pg)")
    case None
    with Cons entry show ?thesis by auto
  next
    case (Some y)
    with Cons.prems entry have "q = pid" "y = x" by simp_all
    with Some entry show ?thesis by auto
  qed
qed

lemma find_in_pages_exists:
  assumes "(q, pg) \<in> set ps" and "y \<in> set (buttons_of pg)" and "b_id y = Some button_id"
  shows "\<exists>pid x. find_in_pages ps button_id = Some (pid, x)"
  using assms(1)
proof (induction ps)
  case Nil
  then show ?case by simp
next
  case (Cons entry rest)
  obtain q' pg' where entry: "entry = (q', pg')" by (cases entry)
  show ?case
  proof (cases "find (\<lambda>y. b_id y = Some button_id) (buttons_of pg')")
    case (Some x)
    with entry show ?thesis by simp
  next
    case None
    then have none: "\<forall>z\<in>set (buttons_of pg'). b_id z \<noteq> Some button_id"
      by (simp add: find_None_iff)
    have "(q, pg) \<noteq> (q', pg')"
    proof
      assume "(q, pg) = (q', pg')"
      with assms(2,3) none show False by auto
    qed
    with Cons.prems entry have "(q, pg) \<in> set rest" by auto
    then obtain pid x where "find_in_pages rest button_id = Some (pid, x)"
      using Cons.IH by blast
    with None entry show ?thesis by simp
  qed
qed

lemma find_button_by_id_exists:
  assumes "(q, pg) \<in> set (pages_of d)" and "y \<in> set (buttons_of pg)"
    and "b_id y = Some button_id"
  shows "\<exists>pid x. find_button_by_id d button_id = Some (pid, x)"
  unfolding find_button_by_id_def using assms by (rule find_in_pages_exists)

text \<open>
  When no other button of the graph carries the id, the scan ends on the button that
  carries it and on the page that owns it.
\<close>

lemma find_button_by_id_owner:
  assumes "(q, pg) \<in> set (pages_of d)" and "y \<in> set (buttons_of pg)"
    and "b_id y = Some button_id"
    and only: "\<And>q' pg' y'. (q', pg') \<in> set (pages_of d) \<Longrightarrow> y' \<in> set (buttons_of pg') \<Longrightarrow>
                 b_id y' = Some button_id \<Longrightarrow> q' = q \<and> y' = y"
  shows "find_button_by_id d button_id = Some (q, y)"
proof -
  from assms(1-3) obtain pid x where f: "find_in_pages (pages_of d) button_id = Some (pid, x)"
    using find_in_pages_exists by blast
  then obtain pg' where "(pid, pg') \<in> set (pages_of d)"
    and "find (\<lambda>z. b_id z = Some button_id) (buttons_of pg') = Some x"
    using find_in_pages_Some by blast
  then have "(pid, pg') \<in> set (pages_of d)" "x \<in> set (buttons_of pg')" "b_id x = Some button_id"
    by (auto simp: find_Some_iff)
  then have "pid = q \<and> x = y" by (rule only)
  with f show ?thesis by (simp add: find_button_by_id_def)
qed

text \<open>
  The frame of a deletion, for the button the scan ends on. On a graph whose pages
  dictionary has distinct keys, let the scan for a button id end on page \<open>pid\<close> with
  button \<open>x\<close> (it does for every id that some button carries, by
  \<open>find_button_by_id_exists\<close>). Then deleting that id answers with the deletion
  message; the page ids and their order stay; every page other than \<open>pid\<close> is the page
  it was; page \<open>pid\<close> differs only in its button list, which is the old list without
  the first occurrence of \<open>x\<close>; actions and settings stay; the graph is saved.
\<close>

lemma delete_button_frame:
  assumes "pages (db b) = Some ps" and "distinct (map fst ps)"
    and "find_button_by_id (db b) button_id = Some (pid, x)"
  shows "\<exists>pg bs. map_of ps pid = Some pg \<and> p_buttons pg = Some bs \<and> x \<in> set bs \<and>
           b_id x = Some button_id \<and>
           fst (delete_button b button_id) = ButtonDeleted (b_text x) \<and>
           map fst (pages_of (db (snd (delete_button b button_id)))) = map fst ps \<and>
           map_of (pages_of (db (snd (delete_button b button_id)))) =
             (map_of ps)(pid \<mapsto> pg\<lparr>p_buttons := Some (remove1 x bs)\<rparr>) \<and>
           actions (db (snd (delete_button b button_id))) = actions (db b) \<and>
           settings (db (snd (delete_button b button_id))) = settings (db b) \<and>
           saved_database (snd (delete_button b button_id)) =
             Some (db (snd (delete_button b button_id)))"
proof -
  from assms(1,3) have "find_in_pages ps button_id = Some (pid, x)"
    by (simp add: find_button_by_id_def pages_of_def)
  then obtain pg where pg: "(pid, pg) \<in> set ps"
    and f: "find (\<lambda>y. b_id y = Some button_id) (buttons_of pg) = Some x"
    using find_in_pages_Some by blast
  from pg assms(2) have look: "map_of ps pid = Some pg" by simp
  from f have x: "x \<in> set (buttons_of pg)" "b_id x = Some button_id"
    by (auto simp: find_Some_iff)
  then obtain bs where bs: "p_buttons pg = Some bs" "x \<in> set bs"
    by (cases "p_buttons pg") (auto simp: buttons_of_def)
  from pg have key: "pid \<in> fst ` set ps" by force
  have del: "delete_button b button_id =
      (ButtonDeleted (b_text x),
       save_database (b\<lparr>db := (db b)\<lparr>pages := Some (dict_set ps pid
           (pg\<lparr>p_buttons := Some (remove1 x bs)\<rparr>))\<rparr>\<rparr>))"
    using assms(1,3) look bs by (simp add: delete_button_def)
  show ?thesis
    using look bs x(2) key
    by (simp add: del save_database_def pages_of_def map_of_dict_set keys_dict_set)
qed


definition two_page_graph :: database where
  "two_page_graph =
     \<lparr>pages = Some
        [(''main'',
          \<lparr>p_title = ''Menu'', p_content = ''Ciao'',
           p_buttons = Some [new_button ''btn_1'' ''A'' ''page_about'' sample_now,
                             new_button ''btn_2'' ''B'' ''back_to_main'' sample_now],
           p_created_at = Some sample_now, p_updated_at = None\<rparr>),
         (''about'',
          \<lparr>p_title = ''Chi Siamo'', p_content = ''Testo'',
           p_buttons = Some [new_button ''btn_3'' ''C'' ''back_to_main'' sample_now],
           p_created_at = Some sample_now, p_updated_at = None\<rparr>)],
      actions = Some [],
      settings = Some \<lparr>welcome_message = None, main_menu = Some ''main''\<rparr>\<rparr>"

lemma delete_button_frame_example:
  "(\<exists>pg bs. map_of (pages_of two_page_graph) ''main'' = Some pg \<and> p_buttons pg = Some bs \<and>
      new_button ''btn_2'' ''B'' ''back_to_main'' sample_now \<in> set bs \<and>
      b_id (new_button ''btn_2'' ''B'' ''back_to_main'' sample_now) = Some ''btn_2'' \<and>
      fst (delete_button (start_bot two_page_graph []) ''btn_2'') =
        ButtonDeleted (b_text (new_button ''btn_2'' ''B'' ''back_to_main'' sample_now)) \<and>
      map fst (pages_of (db (snd (delete_button (start_bot two_page_graph []) ''btn_2'')))) =
        map fst (pages_of two_page_graph) \<and>
      map_of (pages_of (db (snd (delete_button (start_bot two_page_graph []) ''btn_2'')))) =
        (map_of (pages_of two_page_graph))(''main'' \<mapsto>
           pg\<lparr>p_buttons := Some (remove1 (new_button ''btn_2'' ''B'' ''back_to_main'' sample_now) bs)\<rparr>) \<and>
      actions (db (snd (delete_button (start_bot two_page_graph []) ''btn_2''))) =
        actions (db (start_bot two_page_graph [])) \<and>
      settings (db (snd (delete_button (start_bot two_page_graph []) ''btn_2''))) =
        settings (db (start_bot two_page_graph [])) \<and>
      saved_database (snd (delete_button (start_bot two_page_graph []) ''btn_2'')) =
        Some (db (snd (delete_button (start_bot two_page_graph []) ''btn_2'')))) \<and>
   pages (db (snd (delete_button (start_bot two_page_graph []) ''btn_2''))) = Some
        [(''main'',
          \<lparr>p_title = ''Menu'', p_content = ''Ciao'',
           p_buttons = Some [new_button ''btn_1'' ''A'' ''page_about'' sample_now],
           p_created_at = Some sample_now, p_updated_at = None\<rparr>),
         (''about'',
          \<lparr>p_title = ''Chi Siamo'', p_content = ''Testo'',
           p_buttons = Some [new_button ''btn_3'' ''C'' ''back_to_main'' sample_now],
           p_created_at = Some sample_now, p_updated_at = None\<rparr>)]"
proof -
  have 1: "pages (db (start_bot two_page_graph [])) = Some (pages_of two_page_graph)"
    by (simp add: start_bot_def two_page_graph_def pages_of_def)
  have 2: "distinct (map fst (pages_of two_page_graph))"
    by (simp add: two_page_graph_def pages_of_def)
  have 3: "find_button_by_id (db (start_bot two_page_graph [])) ''btn_2'' =
      Some (''main'', new_button ''btn_2'' ''B'' ''back_to_main'' sample_now)"
    by (simp add: find_button_by_id_def start_bot_def two_page_graph_def pages_of_def
        buttons_of_def new_button_def)
  have 4: "pages (db (snd (delete_button (start_bot two_page_graph []) ''btn_2''))) = Some
        [(''main'',
          \<lparr>p_title = ''Menu'', p_content = ''Ciao'',
           p_buttons = Some [new_button ''btn_1'' ''A'' ''page_about'' sample_now],
           p_created_at = Some sample_now, p_updated_at = None\<rparr>),
         (''about'',
          \<lparr>p_title = ''Chi Siamo'', p_content = ''Testo'',
           p_buttons = Some [new_button ''btn_3'' ''C'' ''back_to_main'' sample_now],
           p_created_at = Some sample_now, p_updated_at = None\<rparr>)]"
    by (simp add: delete_button_def find_button_by_id_def start_bot_def two_page_graph_def
        pages_of_def buttons_of_def new_button_def save_database_def)
  from delete_button_frame [OF 1 2 3] 4 show ?thesis by (rule conjI)
qed

text \<open>The scan goes on to later pages: a button of the second page is found and removed.\<close>

lemma delete_button_on_later_page:
  "find_button_by_id two_page_graph ''btn_3'' =
     Some (''about'', new_button ''btn_3'' ''C'' ''back_to_main'' sample_now) \<and>
   fst (delete_button (start_bot two_page_graph []) ''btn_3'') = ButtonDeleted ''C'' \<and>
   pages (db (snd (delete_button (start_bot two_page_graph []) ''btn_3''))) = Some
        [(''main'',
          \<lparr>p_title = ''Menu'', p_content = ''Ciao'',
           p_buttons = Some [new_button ''btn_1'' ''A'' ''page_about'' sample_now,
                             new_button ''btn_2'' ''B'' ''back_to_main'' sample_now],
           p_created_at = Some sample_now, p_updated_at = None\<rparr>),
         (''about'',
          \<lparr>p_title = ''Chi Siamo'', p_content = ''Testo'', p_buttons = Some [],
           p_created_at = Some sample_now, p_updated_at = None\<rparr>)] \<and>
   fst (delete_button (start_bot two_page_graph []) ''btn_9'') = ButtonNotFound"
  by (simp add: delete_button_def find_button_by_id_def start_bot_def two_page_graph_def
      pages_of_def buttons_of_def new_button_def save_database_def)

subsection \<open>Deleting by an id that two buttons carry\<close>

definition graph_two_empty_pages :: database where
  "graph_two_empty_pages =
     \<lparr>pages = Some
        [(''main'',
          \<lparr>p_title = ''Menu'', p_content = ''Ciao'', p_buttons = Some [],
           p_created_at = Some sample_now, p_updated_at = None\<rparr>),
         (''about'',
          \<lparr>p_title = ''Chi Siamo'', p_content = ''Testo'', p_buttons = Some [],
           p_created_at = Some sample_now, p_updated_at = None\<rparr>)],
      actions = Some [],
      settings = Some \<lparr>welcome_message = None, main_menu = Some ''main''\<rparr>\<rparr>"

definition graph_colliding_ids :: database where
  "graph_colliding_ids =
     \<lparr>pages = Some
        [(''main'',
          \<lparr>p_title = ''Menu'', p_content = ''Ciao'',
           p_buttons = Some [new_button ''btn_1'' ''A'' ''page_about'' sample_now],
           p_created_at = Some sample_now, p_updated_at = None\<rparr>),
         (''about'',
          \<lparr>p_title = ''Chi Siamo'', p_content = ''Testo'',
           p_buttons = Some [new_button ''btn_1'' ''B'' ''back_to_main'' sample_now],
           p_created_at = Some sample_now, p_updated_at = None\<rparr>)],
      actions = Some [],
      settings = Some \<lparr>welcome_message = None, main_menu = Some ''main''\<rparr>\<rparr>"

text \<open>
  The program itself writes this graph: button A is added to \<open>main\<close> in a first run, and
  after a restart button B is added to \<open>about\<close> and is given the id of A again.
\<close>

lemma two_runs_persist_colliding_ids:
  "saved_database (fst (snd (create_button_from_text
       (start_bot
          (db (fst (snd (create_button_from_text (start_bot graph_two_empty_pages [])
             [''adding_button_42'' \<mapsto> ''main''] 42 ''A|page_about'' sample_now)))) [])
       [''adding_button_42'' \<mapsto> ''about''] 42 ''B|back_to_main'' sample_now))) =
   Some graph_colliding_ids"
proof -
  have first: "db (fst (snd (create_button_from_text (start_bot graph_two_empty_pages [])
       [''adding_button_42'' \<mapsto> ''main''] 42 ''A|page_about'' sample_now))) =
     \<lparr>pages = Some
        [(''main'',
          \<lparr>p_title = ''Menu'', p_content = ''Ciao'',
           p_buttons = Some [new_button ''btn_1'' ''A'' ''page_about'' sample_now],
           p_created_at = Some sample_now, p_updated_at = None\<rparr>),
         (''about'',
          \<lparr>p_title = ''Chi Siamo'', p_content = ''Testo'', p_buttons = Some [],
           p_created_at = Some sample_now, p_updated_at = None\<rparr>)],
      actions = Some [],
      settings = Some \<lparr>welcome_message = None, main_menu = Some ''main''\<rparr>\<rparr>"
    by (simp add: graph_two_empty_pages_def button_scenario_defs)
  show ?thesis
    unfolding first
    by (simp add: graph_colliding_ids_def button_scenario_defs)
qed

text \<open>
  Claim C9, on the graph with two buttons of id \<open>btn_1\<close>. The delete key shown for
  button B on page \<open>about\<close> carries the id \<open>btn_1\<close>. Deleting by that id ends the scan on
  page \<open>main\<close>: button A is removed from the list of \<open>main\<close>, a page that does not own
  B, and B stays on \<open>about\<close>.
\<close>

theorem delete_by_colliding_id_removes_other_button:
  "find_button_by_id graph_colliding_ids ''btn_1'' =
     Some (''main'', new_button ''btn_1'' ''A'' ''page_about'' sample_now) \<and>
   fst (delete_button (start_bot graph_colliding_ids []) ''btn_1'') = ButtonDeleted ''A'' \<and>
   pages (db (snd (delete_button (start_bot graph_colliding_ids []) ''btn_1''))) = Some
        [(''main'',
          \<lparr>p_title = ''Menu'', p_content = ''Ciao'', p_buttons = Some [],
           p_created_at = Some sample_now, p_updated_at = None\<rparr>),
         (''about'',
          \<lparr>p_title = ''Chi Siamo'', p_content = ''Testo'',
           p_buttons = Some [new_button ''btn_1'' ''B'' ''back_to_main'' sample_now],
           p_created_at = Some sample_now, p_updated_at = None\<rparr>)]"
  by (simp add: delete_button_def find_button_by_id_def start_bot_def graph_colliding_ids_def
      pages_of_def buttons_of_def new_button_def save_database_def)


section \<open>Registering a user\<close>

text \<open>
  \<^verbatim>\<open>register_user\<close>: a record is stored and the user store saved only when the key
  \<^verbatim>\<open>str(user_id)\<close> is not yet in the store. The two timestamps are the two readings of
  the clock the source takes.
\<close>

definition new_user ::
  "string option \<Rightarrow> string option \<Rightarrow> string option \<Rightarrow> string \<Rightarrow> string \<Rightarrow> string \<Rightarrow> user" where
  "new_user username first_name last_name role registered seen =
     \<lparr>u_username = username, u_first_name = first_name, u_last_name = last_name,
      u_role = role, u_registered_at = registered, u_last_seen = seen,
      u_total_interactions = 0, u_pages_visited = [], u_buttons_clicked = [],
      u_commands_used = None\<rparr>"

definition register_user ::
  "bot \<Rightarrow> int \<Rightarrow> string option \<Rightarrow> string option \<Rightarrow> string option \<Rightarrow> string \<Rightarrow> string \<Rightarrow> string \<Rightarrow> bot"
  where
  "register_user b user_id username first_name last_name role registered seen =
     (if str_int user_id \<notin> fst ` set (users b)
      then save_users_database
             (b\<lparr>users := dict_set (users b) (str_int user_id)
                   (new_user username first_name last_name role registered seen)\<rparr>)
      else b)"

text \<open>
  Claim C10. For a user id whose key is in the user store, \<^verbatim>\<open>register_user\<close> returns the
  bot as it was, whatever name, role and time it is called with: the stored record
  (role, registration time, counters, activity lists), every other record and the saved
  files are the same. For an id whose key is not in the store, the new record is added
  after the existing ones, which stay as they are, and the store is saved.
\<close>

theorem register_user_known_or_new:
  "(str_int user_id \<in> fst ` set (users b) \<longrightarrow>
      register_user b user_id username first_name last_name role registered seen = b) \<and>
   (str_int user_id \<notin> fst ` set (users b) \<longrightarrow>
      users (register_user b user_id username first_name last_name role registered seen) =
        users b @ [(str_int user_id,
                    new_user username first_name last_name role registered seen)] \<and>
      saved_users (register_user b user_id username first_name last_name role registered seen) =
        Some (users (register_user b user_id username first_name last_name role registered seen)))"
  by (simp add: register_user_def save_users_database_def dict_set_new)

definition known_admin :: user where
  "known_admin =
     \<lparr>u_username = Some ''lix'', u_first_name = None, u_last_name = None,
      u_role = ''admin'', u_registered_at = ''2023-05-01T09:00:00'',
      u_last_seen = ''2023-12-31T23:59:59'', u_total_interactions = 17,
      u_pages_visited = [''main'', ''about''], u_buttons_clicked = [''A''],
      u_commands_used = Some [(''start'', 3)]\<rparr>"

theorem register_user_known_or_new_witness:
  "register_user (start_bot empty_graph [(''42'', known_admin)]) 42 (Some ''lix'') None None
     ''user'' sample_now sample_now = start_bot empty_graph [(''42'', known_admin)] \<and>
   map_of (users (register_user (start_bot empty_graph [(''42'', known_admin)]) 42 (Some ''lix'')
     None None ''user'' sample_now sample_now)) ''42'' = Some known_admin \<and>
   users (register_user (start_bot empty_graph [(''42'', known_admin)]) 7 None None None
     ''user'' sample_now sample_now) =
     [(''42'', known_admin), (''7'', new_user None None None ''user'' sample_now sample_now)]"
proof -
  have k42: "str_int 42 = ''42''" and k7: "str_int 7 = ''7''"
    by (simp_all add: str_int_def digits_of.simps digit_char_def)
  have in42: "str_int 42 \<in> fst ` set (users (start_bot empty_graph [(''42'', known_admin)]))"
    and out7: "str_int 7 \<notin> fst ` set (users (start_bot empty_graph [(''42'', known_admin)]))"
    by (simp_all add: k42 k7 start_bot_def)
  have a: "register_user (start_bot empty_graph [(''42'', known_admin)]) 42 (Some ''lix'') None None
      ''user'' sample_now sample_now = start_bot empty_graph [(''42'', known_admin)]"
    using register_user_known_or_new
      [of 42 "start_bot empty_graph [(''42'', known_admin)]" "Some ''lix''" None None
        "''user''" sample_now sample_now] in42
    by blast
  have b: "users (register_user (start_bot empty_graph [(''42'', known_admin)]) 7 None None None
      ''user'' sample_now sample_now) =
      users (start_bot empty_graph [(''42'', known_admin)]) @
        [(str_int 7, new_user None None None ''user'' sample_now sample_now)]"
    using register_user_known_or_new
      [of 7 "start_bot empty_graph [(''42'', known_admin)]" None None None
        "''user''" sample_now sample_now] out7
    by blast
  show ?thesis
    by (simp add: a b k7) (simp add: start_bot_def)
qed


section \<open>User activity\<close>

text \<open>
  \<^verbatim>\<open>update_user_activity\<close>, on the user store: nothing for an unknown user; otherwise
  the last-seen time and the interaction counter are updated and the tracker of the
  action kind runs on the data handed in. A page or button label is appended to its
  list when it is not yet there, and the oldest entry is dropped beyond 50 pages or 100
  buttons. The analytics counters, which are a store of their own, and the delayed
  save on a background thread are not modelled.
\<close>

definition track_visit :: "nat \<Rightarrow> string \<Rightarrow> string list \<Rightarrow> string list" where
  "track_visit limit x xs =
     (if x \<in> set xs then xs
      else let ys = xs @ [x] in if length ys > limit then tl ys else ys)"

definition track_page_view :: "user \<Rightarrow> (string \<times> string) list \<Rightarrow> user" where
  "track_page_view u data =
     (case map_of data ''page_id'' of
        None \<Rightarrow> u
      | Some page_id \<Rightarrow>
          if page_id = [] then u
          else u\<lparr>u_pages_visited := track_visit 50 page_id (u_pages_visited u)\<rparr>)"

definition track_button_click :: "user \<Rightarrow> (string \<times> string) list \<Rightarrow> user" where
  "track_button_click u data =
     (let button_text = (case map_of data ''button_text'' of None \<Rightarrow> ''unknown'' | Some t \<Rightarrow> t)
      in if button_text = [] then u
         else u\<lparr>u_buttons_clicked := track_visit 100 button_text (u_buttons_clicked u)\<rparr>)"

definition track_command_usage :: "user \<Rightarrow> (string \<times> string) list \<Rightarrow> user" where
  "track_command_usage u data =
     (let command = (case map_of data ''command'' of None \<Rightarrow> ''unknown'' | Some c \<Rightarrow> c);
          used = (case u_commands_used u of None \<Rightarrow> [] | Some cu \<Rightarrow> cu)
      in if command = [] then u
         else u\<lparr>u_commands_used := Some (dict_set used command
                 (case map_of used command of None \<Rightarrow> 1 | Some n \<Rightarrow> n + 1))\<rparr>)"

definition update_user_activity ::
  "bot \<Rightarrow> int \<Rightarrow> string \<Rightarrow> (string \<times> string) list \<Rightarrow> string \<Rightarrow> bot" where
  "update_user_activity b user_id act data seen =
     (case map_of (users b) (str_int user_id) of
        None \<Rightarrow> b
      | Some u \<Rightarrow>
          let u1 = u\<lparr>u_last_seen := seen, u_total_interactions := u_total_interactions u + 1\<rparr>;
              u2 = (if act = ''page_view'' then track_page_view u1 data
                    else if act = ''button_click'' then track_button_click u1 data
                    else if act = ''command_used'' then track_command_usage u1 data
                    else u1)
          in b\<lparr>users := dict_set (users b) (str_int user_id) u2\<rparr>)"

lemma update_user_activity_unknown:
  "map_of (users b) (str_int user_id) = None \<Longrightarrow>
     update_user_activity b user_id act data seen = b"
  by (simp add: update_user_activity_def)

lemma update_user_activity_graph:
  "db (update_user_activity b user_id act data seen) = db b"
  "saved_database (update_user_activity b user_id act data seen) = saved_database b"
  "user_states (update_user_activity b user_id act data seen) = user_states b"
  by (simp_all add: update_user_activity_def Let_def split: option.splits)

text \<open>
  The tracking a handler does for the user of the update, when there is one.
\<close>

definition track :: "bot \<Rightarrow> int option \<Rightarrow> string \<Rightarrow> (string \<times> string) list \<Rightarrow> string \<Rightarrow> bot" where
  "track b viewer act data seen =
     (case viewer of None \<Rightarrow> b | Some u \<Rightarrow> update_user_activity b u act data seen)"

lemma track_graph:
  "db (track b viewer act data seen) = db b"
  "saved_database (track b viewer act data seen) = saved_database b"
  by (simp_all add: track_def update_user_activity_graph split: option.splits)

lemma track_no_users: "users b = [] \<Longrightarrow> track b viewer act data seen = b"
  by (simp add: track_def update_user_activity_def split: option.splits)

section \<open>Resolving a page\<close>

text \<open>The exceptions of the source that the modelled paths can raise.\<close>

datatype py_exception = KeyError | UnboundLocalError | ValueError

text \<open>
  \<^verbatim>\<open>_create_default_page\<close>: the default page is stored under the key \<open>main\<close> and the graph
  is saved. The store indexes \<^verbatim>\<open>self.database['pages']\<close>, which raises when the graph has
  no pages table.
\<close>

definition default_page :: "string \<Rightarrow> page" where
  "default_page now =
     \<lparr>p_title = ''Menu Principale'',
      p_content = ''Benvenuto! Usa /editor per configurare il bot.'',
      p_buttons = Some [], p_created_at = Some now, p_updated_at = None\<rparr>"

definition create_default_page :: "bot \<Rightarrow> string \<Rightarrow> (py_exception + page) \<times> bot" where
  "create_default_page b now =
     (case pages (db b) of
        None \<Rightarrow> (Inl KeyError, b)
      | Some ps \<Rightarrow>
          (Inr (default_page now),
           save_database
             (b\<lparr>db := (db b)\<lparr>pages := Some (dict_set ps ''main'' (default_page now))\<rparr>\<rparr>)))"

text \<open>\<^verbatim>\<open>_get_valid_page\<close>: the page asked for, else the main menu page, else a default page.\<close>

definition get_valid_page :: "bot \<Rightarrow> string \<Rightarrow> string \<Rightarrow> (py_exception + page) \<times> bot" where
  "get_valid_page b page_id now =
     (case map_of (pages_of (db b)) page_id of
        Some p \<Rightarrow> (Inr p, b)
      | None \<Rightarrow>
          (case map_of (pages_of (db b)) (main_menu_of (db b)) of
             Some p \<Rightarrow> (Inr p, b)
           | None \<Rightarrow> create_default_page b now))"

text \<open>
  Claim C5, as the code has it. The page asked for is returned when it exists, and
  otherwise the configured main menu page when that exists, the bot unchanged in both
  cases. When neither exists and the graph has a pages table, the default page, titled
  \<open>Menu Principale\<close> with the welcome content and an empty button list, is stored under
  the id \<open>main\<close>, the graph is saved, and that page is returned.
\<close>

theorem get_valid_page_cases:
  "(map_of (pages_of (db b)) page_id = Some p \<longrightarrow> get_valid_page b page_id now = (Inr p, b)) \<and>
   (map_of (pages_of (db b)) page_id = None \<and>
    map_of (pages_of (db b)) (main_menu_of (db b)) = Some p \<longrightarrow>
      get_valid_page b page_id now = (Inr p, b)) \<and>
   (map_of (pages_of (db b)) page_id = None \<and>
    map_of (pages_of (db b)) (main_menu_of (db b)) = None \<and> pages (db b) = Some ps \<longrightarrow>
      fst (get_valid_page b page_id now) = Inr (default_page now) \<and>
      p_title (default_page now) = ''Menu Principale'' \<and>
      p_buttons (default_page now) = Some [] \<and>
      map_of (pages_of (db (snd (get_valid_page b page_id now)))) =
        (map_of ps)(''main'' \<mapsto> default_page now) \<and>
      actions (db (snd (get_valid_page b page_id now))) = actions (db b) \<and>
      settings (db (snd (get_valid_page b page_id now))) = settings (db b) \<and>
      saved_database (snd (get_valid_page b page_id now)) =
        Some (db (snd (get_valid_page b page_id now))))"
proof -
  have first: "get_valid_page b page_id now = (Inr p, b)"
    if "map_of (pages_of (db b)) page_id = Some p"
    using that by (simp add: get_valid_page_def)
  have second: "get_valid_page b page_id now = (Inr p, b)"
    if "map_of (pages_of (db b)) page_id = None \<and>
        map_of (pages_of (db b)) (main_menu_of (db b)) = Some p"
    using that by (simp add: get_valid_page_def)
  have third: "fst (get_valid_page b page_id now) = Inr (default_page now) \<and>
      p_title (default_page now) = ''Menu Principale'' \<and>
      p_buttons (default_page now) = Some [] \<and>
      map_of (pages_of (db (snd (get_valid_page b page_id now)))) =
        (map_of ps)(''main'' \<mapsto> default_page now) \<and>
      actions (db (snd (get_valid_page b page_id now))) = actions (db b) \<and>
      settings (db (snd (get_valid_page b page_id now))) = settings (db b) \<and>
      saved_database (snd (get_valid_page b page_id now)) =
        Some (db (snd (get_valid_page b page_id now)))"
    if h: "map_of (pages_of (db b)) page_id = None \<and>
        map_of (pages_of (db b)) (main_menu_of (db b)) = None \<and> pages (db b) = Some ps"
  proof -
    from h have g: "get_valid_page b page_id now =
        (Inr (default_page now),
         save_database (b\<lparr>db := (db b)\<lparr>pages := Some (dict_set ps ''main'' (default_page now))\<rparr>\<rparr>))"
      by (simp add: get_valid_page_def create_default_page_def)
    show ?thesis
      unfolding g
      by (simp add: save_database_def pages_of_def map_of_dict_set) (simp add: default_page_def)
  qed
  from first second third show ?thesis by blast
qed

theorem get_valid_page_cases_witness:
  "get_valid_page (start_bot two_page_graph []) ''about'' sample_now =
     (Inr \<lparr>p_title = ''Chi Siamo'', p_content = ''Testo'',
            p_buttons = Some [new_button ''btn_3'' ''C'' ''back_to_main'' sample_now],
            p_created_at = Some sample_now, p_updated_at = None\<rparr>,
      start_bot two_page_graph []) \<and>
   fst (get_valid_page (start_bot two_page_graph []) ''nowhere'' sample_now) =
     Inr \<lparr>p_title = ''Menu'', p_content = ''Ciao'',
           p_buttons = Some [new_button ''btn_1'' ''A'' ''page_about'' sample_now,
                             new_button ''btn_2'' ''B'' ''back_to_main'' sample_now],
           p_created_at = Some sample_now, p_updated_at = None\<rparr> \<and>
   fst (get_valid_page (start_bot empty_graph []) ''nowhere'' sample_now) =
     Inr (default_page sample_now) \<and>
   pages (db (snd (get_valid_page (start_bot empty_graph []) ''nowhere'' sample_now))) =
     Some [(''main'', default_page sample_now)] \<and>
   saved_database (snd (get_valid_page (start_bot empty_graph []) ''nowhere'' sample_now)) =
     Some (db (snd (get_valid_page (start_bot empty_graph []) ''nowhere'' sample_now)))"
proof -
  let ?about = "\<lparr>p_title = ''Chi Siamo'', p_content = ''Testo'',
            p_buttons = Some [new_button ''btn_3'' ''C'' ''back_to_main'' sample_now],
            p_created_at = Some sample_now, p_updated_at = None\<rparr>"
  let ?menu = "\<lparr>p_title = ''Menu'', p_content = ''Ciao'',
           p_buttons = Some [new_button ''btn_1'' ''A'' ''page_about'' sample_now,
                             new_button ''btn_2'' ''B'' ''back_to_main'' sample_now],
           p_created_at = Some sample_now, p_updated_at = None\<rparr>"
  have 1: "map_of (pages_of (db (start_bot two_page_graph []))) ''about'' = Some ?about"
    by (simp add: start_bot_def two_page_graph_def pages_of_def)
  have 2: "map_of (pages_of (db (start_bot two_page_graph []))) ''nowhere'' = None \<and>
      map_of (pages_of (db (start_bot two_page_graph [])))
        (main_menu_of (db (start_bot two_page_graph []))) = Some ?menu"
    by (simp add: start_bot_def two_page_graph_def pages_of_def main_menu_of_def)
  have 3: "map_of (pages_of (db (start_bot empty_graph []))) ''nowhere'' = None \<and>
      map_of (pages_of (db (start_bot empty_graph [])))
        (main_menu_of (db (start_bot empty_graph []))) = None \<and>
      pages (db (start_bot empty_graph [])) = Some []"
    by (simp add: start_bot_def empty_graph_def pages_of_def main_menu_of_def)
  have a: "get_valid_page (start_bot two_page_graph []) ''about'' sample_now =
      (Inr ?about, start_bot two_page_graph [])"
    using get_valid_page_cases [of "start_bot two_page_graph []" "''about''" ?about sample_now] 1
    by blast
  have b: "get_valid_page (start_bot two_page_graph []) ''nowhere'' sample_now =
      (Inr ?menu, start_bot two_page_graph [])"
    using get_valid_page_cases [of "start_bot two_page_graph []" "''nowhere''" ?menu sample_now] 2
    by blast
  have c: "fst (get_valid_page (start_bot empty_graph []) ''nowhere'' sample_now) =
        Inr (default_page sample_now) \<and>
      saved_database (snd (get_valid_page (start_bot empty_graph []) ''nowhere'' sample_now)) =
        Some (db (snd (get_valid_page (start_bot empty_graph []) ''nowhere'' sample_now)))"
    using get_valid_page_cases
      [of "start_bot empty_graph []" "''nowhere''" undefined sample_now "[]"] 3
    by blast
  have d: "pages (db (snd (get_valid_page (start_bot empty_graph []) ''nowhere'' sample_now))) =
      Some [(''main'', default_page sample_now)]"
    by (simp add: get_valid_page_def create_default_page_def start_bot_def empty_graph_def
        pages_of_def main_menu_of_def save_database_def)
  show ?thesis using a b c d by simp
qed

text \<open>
  The claim as stated names the title \<open>Main Menu\<close>; on the empty graph the page
  synthesised, stored and returned is titled \<open>Menu Principale\<close>.
\<close>

theorem default_page_title_differs:
  "fst (get_valid_page (start_bot empty_graph []) ''main'' sample_now) =
     Inr (default_page sample_now) \<and>
   p_title (default_page sample_now) = ''Menu Principale'' \<and>
   p_title (default_page sample_now) \<noteq> ''Main Menu''"
  by (simp add: get_valid_page_def create_default_page_def start_bot_def empty_graph_def
      pages_of_def main_menu_of_def default_page_def)

text \<open>
  On a graph without a pages table (the value \<^verbatim>\<open>load_database\<close> gives for a file with
  no \<open>database\<close> entry) the lookups fall through and the store raises.
\<close>

lemma get_valid_page_no_pages_table:
  "get_valid_page (start_bot \<lparr>pages = None, actions = None, settings = None\<rparr> []) ''main''
     sample_now =
   (Inl KeyError, start_bot \<lparr>pages = None, actions = None, settings = None\<rparr> [])"
  by (simp add: get_valid_page_def create_default_page_def start_bot_def pages_of_def
      main_menu_of_def)


section \<open>Rendering a page\<close>

datatype parse_mode = MARKDOWN | MARKDOWN_V2 | HTML

definition problem_chars :: "char list" where
  "problem_chars = [CHR ''*'', CHR ''_'', CHR 0x60, CHR ''['', CHR '']'']"

text \<open>
  \<^verbatim>\<open>_format_markdown_safe\<close>: the full escaping for Markdown V2, the five problem
  characters (with the same guard) for plain Markdown, the text itself otherwise.
\<close>

definition format_markdown_safe :: "string \<Rightarrow> parse_mode \<Rightarrow> string" where
  "format_markdown_safe t mode =
     (if t = [] then t
      else case mode of
             MARKDOWN_V2 \<Rightarrow> escape_markdown t
           | MARKDOWN \<Rightarrow> foldl escape_step t problem_chars
           | HTML \<Rightarrow> t)"

definition newline :: char where
  "newline = CHR 0x0A"

definition create_safe_markdown_text :: "string \<Rightarrow> string \<Rightarrow> string" where
  "create_safe_markdown_text title content =
     ''**'' @ format_markdown_safe title MARKDOWN @ ''**'' @ [newline, newline] @
     format_markdown_safe content MARKDOWN"

definition format_page_content :: "page \<Rightarrow> string" where
  "format_page_content p = create_safe_markdown_text (p_title p) (p_content p)"

text \<open>
  An inline keyboard button: a page button with its label and callback token, or the
  synthesised back button, whose token is \<open>back_to_main\<close>. A keyboard is a list of rows.
\<close>

datatype key = PageButton string string | BackButton

text \<open>
  \<^verbatim>\<open>_create_page_keyboard\<close>: one row per button of the page, then the back row when the
  page id passed in is not the configured main menu.
\<close>

definition create_page_keyboard :: "database \<Rightarrow> page \<Rightarrow> string \<Rightarrow> key list list" where
  "create_page_keyboard d p page_id =
     (let keyboard = foldl (\<lambda>k x. k @ [[PageButton (b_text x) (b_action x)]]) [] (buttons_of p)
      in if page_id \<noteq> main_menu_of d then keyboard @ [[BackButton]] else keyboard)"

text \<open>
  What a navigation or action handler sends: a page with its keyboard, the page error
  notice, a text message, a link message with its label and address, the hand-over to
  the analytics or users command, the notices that the action was not found or failed,
  or nothing at all.
\<close>

datatype outcome =
    PageMessage string "key list list"
  | PageError
  | TextMessage string
  | LinkMessage string string
  | RanAnalytics
  | RanUsers
  | ActionNotFound
  | ActionFailed
  | NoMessage

text \<open>
  \<^verbatim>\<open>show_page\<close>: the page is resolved, formatted and sent with its keyboard; the page id
  given to the keyboard is the id asked for, and the view is tracked for the user of
  the update. An exception ends in the page error notice. The branch for an empty page
  dictionary cannot be taken by a page record, which always has a title and a content.
\<close>

definition show_page ::
  "bot \<Rightarrow> int option \<Rightarrow> string \<Rightarrow> string \<Rightarrow> string \<Rightarrow> outcome \<times> bot" where
  "show_page b viewer page_id now seen =
     (case get_valid_page b page_id now of
        (Inl e, b') \<Rightarrow> (PageError, b')
      | (Inr p, b') \<Rightarrow>
          (let b'' = track b' viewer ''page_view'' [(''page_id'', page_id)] seen
           in (PageMessage (format_page_content p) (create_page_keyboard (db b'') p page_id),
               b'')))"

section \<open>Executing actions\<close>

text \<open>\<^verbatim>\<open>s.replace(old, new)\<close>: every occurrence, left to right, without overlap.\<close>

fun replace_from :: "string \<Rightarrow> string \<Rightarrow> nat \<Rightarrow> string \<Rightarrow> string" where
  "replace_from old new skip [] = []"
| "replace_from old new (Suc k) (c # cs) = replace_from old new k cs"
| "replace_from old new 0 (c # cs) =
     (if take (length old) (c # cs) = old
      then new @ replace_from old new (length old - 1) cs
      else c # replace_from old new 0 cs)"

definition replace_str :: "string \<Rightarrow> string \<Rightarrow> string \<Rightarrow> string" where
  "replace_str old new s =
     (if old = [] then new @ concat (map (\<lambda>c. c # new) s) else replace_from old new 0 s)"

text \<open>
  The clock reading and \<^verbatim>\<open>strftime('%Y-%m-%d %H:%M:%S')\<close>: the year in full, the other
  fields in two digits.
\<close>

record datetime =
  dt_year :: nat
  dt_month :: nat
  dt_day :: nat
  dt_hour :: nat
  dt_minute :: nat
  dt_second :: nat

definition two_digits :: "nat \<Rightarrow> string" where
  "two_digits n = (if n < 10 then CHR ''0'' # digits_of n else digits_of n)"

definition strftime :: "datetime \<Rightarrow> string" where
  "strftime t =
     digits_of (dt_year t) @ ''-'' @ two_digits (dt_month t) @ ''-'' @ two_digits (dt_day t) @
     '' '' @ two_digits (dt_hour t) @ '':'' @ two_digits (dt_minute t) @ '':'' @
     two_digits (dt_second t)"

text \<open>
  \<^verbatim>\<open>_process_message_content\<close>: the user id is read from the key \<open>user_id\<close> of
  \<^verbatim>\<open>context.user_data\<close>, with the default \<open>Unknown\<close>; then the timestamp is substituted and
  the result escaped.
\<close>

definition process_message_content :: "string \<Rightarrow> user_data \<Rightarrow> datetime \<Rightarrow> string" where
  "process_message_content content ud clock =
     (let user_id = (case ud ''user_id'' of None \<Rightarrow> ''Unknown'' | Some v \<Rightarrow> v);
          c1 = replace_str ''{user_id}'' user_id content;
          c2 = replace_str ''{timestamp}'' (strftime clock) c1
      in escape_markdown c2)"

definition action_type_of :: "action \<Rightarrow> string" where
  "action_type_of a = (case a_type a of None \<Rightarrow> ''message'' | Some t \<Rightarrow> t)"

definition url_of :: "action \<Rightarrow> string" where
  "url_of a = (case a_url a of None \<Rightarrow> a_content a | Some u \<Rightarrow> u)"

definition link_text_of :: "action \<Rightarrow> string" where
  "link_text_of a = (case a_text a of None \<Rightarrow> ''Apri Link'' | Some t \<Rightarrow> t)"

text \<open>
  \<^verbatim>\<open>_execute_standard_action\<close>. In the source the final \<^verbatim>\<open>else\<close> belongs to the chain
  over the action type, not to the chain over the command name: a command other than
  the two known ones sends nothing, and a type outside the four reaches the fallback
  message, which reads the variable \<open>command\<close> before any assignment and raises.
\<close>

definition execute_standard_action ::
  "bot \<Rightarrow> user_data \<Rightarrow> int option \<Rightarrow> action \<Rightarrow> string \<Rightarrow> string \<Rightarrow> datetime \<Rightarrow>
     (py_exception + outcome) \<times> bot" where
  "execute_standard_action b ud viewer action_data now seen clock =
     (let action_type = action_type_of action_data
      in if action_type = ''message''
         then (Inr (TextMessage (process_message_content (a_content action_data) ud clock)), b)
         else if action_type = ''page''
         then (Inr (fst (show_page b viewer (a_content action_data) now seen)),
               snd (show_page b viewer (a_content action_data) now seen))
         else if action_type = ''url''
         then (Inr (LinkMessage (link_text_of action_data) (url_of action_data)), b)
         else if action_type = ''command''
         then (let command = a_content action_data
               in if command = ''show_analytics'' then (Inr RanAnalytics, b)
                  else if command = ''show_users'' then (Inr RanUsers, b)
                  else (Inr NoMessage, b))
         else (Inl UnboundLocalError, b))"

text \<open>\<^verbatim>\<open>_execute_action_with_params\<close>: only the types message, page and url do anything.\<close>

definition execute_action_with_params ::
  "bot \<Rightarrow> user_data \<Rightarrow> int option \<Rightarrow> action \<Rightarrow> string \<Rightarrow> string \<Rightarrow> string \<Rightarrow> datetime \<Rightarrow>
     outcome \<times> bot" where
  "execute_action_with_params b ud viewer action_data params now seen clock =
     (let action_type = action_type_of action_data
      in if action_type = ''message''
         then (TextMessage (process_message_content
                 (replace_str ''{param}'' params (a_content action_data)) ud clock), b)
         else if action_type = ''page'' then show_page b viewer params now seen
         else if action_type = ''url''
         then (LinkMessage (link_text_of action_data) (url_of action_data @ params), b)
         else (NoMessage, b))"

text \<open>
  \<^verbatim>\<open>_find_button_text_by_action\<close>: the label of the first button, over the pages in
  order, whose action is the token; \<open>Unknown\<close> when there is none.
\<close>

definition find_button_text_by_action :: "database \<Rightarrow> string \<Rightarrow> string" where
  "find_button_text_by_action d act =
     (case find (\<lambda>x. b_action x = act) (concat (map (\<lambda>p. buttons_of (snd p)) (pages_of d))) of
        None \<Rightarrow> ''Unknown''
      | Some x \<Rightarrow> b_text x)"

text \<open>
  \<^verbatim>\<open>handle_custom_action\<close>, for the user who pressed the button: the click is tracked,
  then the parametrised form is tried, then the action by id, a page token, the back
  token. An exception ends in the failure notice.
\<close>

definition handle_custom_action ::
  "bot \<Rightarrow> user_data \<Rightarrow> int option \<Rightarrow> string \<Rightarrow> string \<Rightarrow> string \<Rightarrow> datetime \<Rightarrow> outcome \<times> bot"
  where
  "handle_custom_action b0 ud viewer act now seen clock =
     (let b = track b0 viewer ''button_click''
                [(''button_text'', find_button_text_by_action (db b0) act)] seen;
          parts = split_max (CHR '':'') 1 act;
          found = (if CHR '':'' \<in> set act then map_of (actions_of (db b)) (parts ! 0) else None)
      in case found of
           Some action_data \<Rightarrow>
             execute_action_with_params b ud viewer action_data (parts ! 1) now seen clock
         | None \<Rightarrow>
             (case map_of (actions_of (db b)) act of
                Some action_data \<Rightarrow>
                  (case execute_standard_action b ud viewer action_data now seen clock of
                     (Inl e, b') \<Rightarrow> (ActionFailed, b')
                   | (Inr out, b') \<Rightarrow> (out, b'))
              | None \<Rightarrow>
                  if take 5 act = ''page_''
                  then show_page b viewer (replace_str ''page_'' [] act) now seen
                  else if act = ''back_to_main''
                  then show_page b viewer (main_menu_of (db b)) now seen
                  else (ActionNotFound, b)))"

text \<open>\<^verbatim>\<open>handle_navigation_callback\<close>: a page token, the back token, or a custom action.\<close>

definition handle_navigation_callback ::
  "bot \<Rightarrow> user_data \<Rightarrow> int option \<Rightarrow> string \<Rightarrow> string \<Rightarrow> string \<Rightarrow> datetime \<Rightarrow> outcome \<times> bot"
  where
  "handle_navigation_callback b ud viewer data now seen clock =
     (if take 5 data = ''page_'' then show_page b viewer (replace_str ''page_'' [] data) now seen
      else if data = ''back_to_main'' then show_page b viewer ''main'' now seen
      else handle_custom_action b ud viewer data now seen clock)"

definition sample_clock :: datetime where
  "sample_clock = \<lparr>dt_year = 2024, dt_month = 1, dt_day = 1,
                    dt_hour = 10, dt_minute = 0, dt_second = 0\<rparr>"

definition graph_with_actions :: database where
  "graph_with_actions =
     \<lparr>pages = Some [(''home'',
         \<lparr>p_title = ''T'', p_content = ''C'',
          p_buttons = Some [new_button ''btn_1'' ''A'' ''back_to_main'' sample_now],
          p_created_at = Some sample_now, p_updated_at = None\<rparr>)],
      actions = Some
        [(''contact'', \<lparr>a_type = Some ''message'', a_content = ''Ciao {user_id}'',
            a_url = None, a_text = None, a_created_at = Some sample_now, a_updated_at = None\<rparr>),
         (''restart'', \<lparr>a_type = Some ''command'', a_content = ''reboot'',
            a_url = None, a_text = None, a_created_at = Some sample_now, a_updated_at = None\<rparr>),
         (''when'', \<lparr>a_type = Some ''message'', a_content = ''Ora {timestamp} per {param}'',
            a_url = None, a_text = None, a_created_at = Some sample_now, a_updated_at = None\<rparr>),
         (''odd'', \<lparr>a_type = Some ''script'', a_content = ''x'',
            a_url = None, a_text = None, a_created_at = Some sample_now, a_updated_at = None\<rparr>)],
      settings = Some \<lparr>welcome_message = None, main_menu = Some ''home''\<rparr>\<rparr>"

subsection \<open>The keyboard and the text of a page\<close>

lemma foldl_rows:
  "foldl (\<lambda>k x. k @ [f x]) acc xs = acc @ map f xs"
  by (induction xs arbitrary: acc) simp_all

lemma create_page_keyboard_rows:
  "create_page_keyboard d p page_id =
     map (\<lambda>x. [PageButton (b_text x) (b_action x)]) (buttons_of p) @
     (if page_id \<noteq> main_menu_of d then [[BackButton]] else [])"
  by (simp add: create_page_keyboard_def Let_def foldl_rows [where acc = "[]", simplified])

lemma format_page_content_shape:
  "format_page_content p =
     ''**'' @ format_markdown_safe (p_title p) MARKDOWN @ ''**'' @ [newline, newline] @
     format_markdown_safe (p_content p) MARKDOWN"
  by (simp add: format_page_content_def create_safe_markdown_text_def)

lemma show_page_existing:
  assumes "map_of (pages_of (db b)) page_id = Some p"
  shows "show_page b viewer page_id now seen =
     (PageMessage (format_page_content p)
        (map (\<lambda>x. [PageButton (b_text x) (b_action x)]) (buttons_of p) @
         (if page_id \<noteq> main_menu_of (db b) then [[BackButton]] else [])),
      track b viewer ''page_view'' [(''page_id'', page_id)] seen)"
  using assms
  by (simp add: show_page_def get_valid_page_def create_page_keyboard_rows Let_def track_graph)

subsection \<open>A sample graph with a main menu called home\<close>

lemma sample_main_menu: "main_menu_of (db (start_bot graph_with_actions [])) = ''home''"
  by (simp add: start_bot_def graph_with_actions_def main_menu_of_def)

lemma sample_track:
  "track (start_bot graph_with_actions []) viewer act data seen = start_bot graph_with_actions []"
  by (rule track_no_users) (simp add: start_bot_def)

lemma sample_pages:
  "pages_of (db (start_bot graph_with_actions [])) =
     [(''home'', \<lparr>p_title = ''T'', p_content = ''C'',
          p_buttons = Some [new_button ''btn_1'' ''A'' ''back_to_main'' sample_now],
          p_created_at = Some sample_now, p_updated_at = None\<rparr>)]"
  by (simp add: start_bot_def graph_with_actions_def pages_of_def)

lemma sample_actions:
  "actions_of (db (start_bot graph_with_actions [])) =
        [(''contact'', \<lparr>a_type = Some ''message'', a_content = ''Ciao {user_id}'',
            a_url = None, a_text = None, a_created_at = Some sample_now, a_updated_at = None\<rparr>),
         (''restart'', \<lparr>a_type = Some ''command'', a_content = ''reboot'',
            a_url = None, a_text = None, a_created_at = Some sample_now, a_updated_at = None\<rparr>),
         (''when'', \<lparr>a_type = Some ''message'', a_content = ''Ora {timestamp} per {param}'',
            a_url = None, a_text = None, a_created_at = Some sample_now, a_updated_at = None\<rparr>),
         (''odd'', \<lparr>a_type = Some ''script'', a_content = ''x'',
            a_url = None, a_text = None, a_created_at = Some sample_now, a_updated_at = None\<rparr>)]"
  by (simp add: start_bot_def graph_with_actions_def actions_of_def)

lemma sample_home_text:
  "format_page_content \<lparr>p_title = ''T'', p_content = ''C'',
          p_buttons = Some [new_button ''btn_1'' ''A'' ''back_to_main'' sample_now],
          p_created_at = Some sample_now, p_updated_at = None\<rparr> =
   ''**T**'' @ [newline, newline] @ ''C''"
  by (simp add: format_page_content_def create_safe_markdown_text_def format_markdown_safe_def
      problem_chars_def escape_step_def)

lemma sample_home_rows:
  "map (\<lambda>x. [PageButton (b_text x) (b_action x)])
     (buttons_of \<lparr>p_title = ''T'', p_content = ''C'',
          p_buttons = Some [new_button ''btn_1'' ''A'' ''back_to_main'' sample_now],
          p_created_at = Some sample_now, p_updated_at = None\<rparr>) =
   [[PageButton ''A'' ''back_to_main'']]"
  by (simp add: buttons_of_def new_button_def)

lemma sample_show_main:
  "show_page (start_bot graph_with_actions []) viewer ''main'' sample_now seen =
     (PageMessage (''**T**'' @ [newline, newline] @ ''C'')
        [[PageButton ''A'' ''back_to_main''], [BackButton]],
      start_bot graph_with_actions [])"
proof -
  have "get_valid_page (start_bot graph_with_actions []) ''main'' sample_now =
      (Inr \<lparr>p_title = ''T'', p_content = ''C'',
          p_buttons = Some [new_button ''btn_1'' ''A'' ''back_to_main'' sample_now],
          p_created_at = Some sample_now, p_updated_at = None\<rparr>,
       start_bot graph_with_actions [])"
    by (simp add: get_valid_page_def sample_pages sample_main_menu)
  then show ?thesis
    by (simp add: show_page_def create_page_keyboard_rows sample_home_rows sample_home_text
        sample_main_menu sample_track)
qed

lemma sample_show_home:
  "show_page (start_bot graph_with_actions []) viewer ''home'' sample_now seen =
     (PageMessage (''**T**'' @ [newline, newline] @ ''C'') [[PageButton ''A'' ''back_to_main'']],
      start_bot graph_with_actions [])"
proof -
  have "map_of (pages_of (db (start_bot graph_with_actions []))) ''home'' =
      Some \<lparr>p_title = ''T'', p_content = ''C'',
          p_buttons = Some [new_button ''btn_1'' ''A'' ''back_to_main'' sample_now],
          p_created_at = Some sample_now, p_updated_at = None\<rparr>"
    by (simp add: sample_pages)
  then show ?thesis
    by (simp add: show_page_existing sample_home_rows sample_home_text sample_main_menu
        sample_track)
qed

text \<open>
  Claim C8, where the page rendered is the configured main menu. The main menu is the
  page \<open>home\<close>. The back token, which asks for the fixed id \<open>main\<close>, falls back to
  that page and renders it with its title and content between the markers and one row
  for its button, and a back row is appended although the page shown is the main menu;
  asked for by its own id, the same page comes without the back row.
\<close>

theorem main_menu_by_fallback_has_back_row:
  "main_menu_of (db (start_bot graph_with_actions [])) = ''home'' \<and>
   fst (get_valid_page (start_bot graph_with_actions []) ''main'' sample_now) =
     Inr \<lparr>p_title = ''T'', p_content = ''C'',
           p_buttons = Some [new_button ''btn_1'' ''A'' ''back_to_main'' sample_now],
           p_created_at = Some sample_now, p_updated_at = None\<rparr> \<and>
   map_of (pages_of (db (start_bot graph_with_actions []))) ''home'' =
     Some \<lparr>p_title = ''T'', p_content = ''C'',
            p_buttons = Some [new_button ''btn_1'' ''A'' ''back_to_main'' sample_now],
            p_created_at = Some sample_now, p_updated_at = None\<rparr> \<and>
   handle_navigation_callback (start_bot graph_with_actions []) Map.empty (Some 42) ''back_to_main''
     sample_now sample_now sample_clock =
     (PageMessage (''**T**'' @ [newline, newline] @ ''C'')
        [[PageButton ''A'' ''back_to_main''], [BackButton]],
      start_bot graph_with_actions []) \<and>
   handle_navigation_callback (start_bot graph_with_actions []) Map.empty (Some 42) ''page_home''
     sample_now sample_now sample_clock =
     (PageMessage (''**T**'' @ [newline, newline] @ ''C'') [[PageButton ''A'' ''back_to_main'']],
      start_bot graph_with_actions [])"
proof -
  have "get_valid_page (start_bot graph_with_actions []) ''main'' sample_now =
      (Inr \<lparr>p_title = ''T'', p_content = ''C'',
          p_buttons = Some [new_button ''btn_1'' ''A'' ''back_to_main'' sample_now],
          p_created_at = Some sample_now, p_updated_at = None\<rparr>,
       start_bot graph_with_actions [])"
    by (simp add: get_valid_page_def sample_pages sample_main_menu)
  moreover have "replace_str ''page_'' [] ''page_home'' = ''home''"
    by (simp add: replace_str_def)
  ultimately show ?thesis
    by (simp add: handle_navigation_callback_def sample_show_main sample_show_home
        sample_main_menu sample_pages)
qed

subsection \<open>Message actions\<close>

lemma process_message_content_no_user_id:
  assumes "ud ''user_id'' = None"
  shows "process_message_content content ud clock =
     escape_markdown (replace_str ''{timestamp}'' (strftime clock)
       (replace_str ''{user_id}'' ''Unknown'' content))"
  using assms by (simp add: process_message_content_def)

lemma create_button_keeps_no_user_id:
  assumes "ud ''user_id'' = None"
  shows "snd (snd (create_button_from_text b ud user_id text0 now)) ''user_id'' = None"
proof -
  have "''adding_button_'' @ str_int user_id \<noteq> ''user_id''" by simp
  with assms show ?thesis
    by (simp add: create_button_from_text_def Let_def split: option.splits)
qed

lemma message_action_ignores_user:
  assumes "CHR '':'' \<notin> set act" and "map_of (actions_of (db b)) act = Some a"
    and "action_type_of a = ''message''" and "ud ''user_id'' = None"
  shows "fst (handle_custom_action b ud viewer act now seen clock) =
     TextMessage (escape_markdown (replace_str ''{timestamp}'' (strftime clock)
       (replace_str ''{user_id}'' ''Unknown'' (a_content a))))"
  using assms
  by (simp add: handle_custom_action_def Let_def track_graph actions_of_def
      execute_standard_action_def process_message_content_no_user_id)

text \<open>
  Claim C2, at its own scenario. The action \<open>contact\<close> of type message has the content
  \<open>Ciao {user_id}\<close>. Whoever presses it, the variable is filled from the key \<open>user_id\<close>
  of the per-user dictionary, which no handler writes, so the text sent is
  \<open>Ciao Unknown\<close>, not the text with the id of the user. The parameter and the timestamp
  are substituted, and the escaping comes after the substitution.
\<close>

theorem contact_action_renders_unknown:
  "handle_custom_action (start_bot graph_with_actions []) Map.empty (Some 42) ''contact''
     sample_now sample_now sample_clock =
     (TextMessage ''Ciao Unknown'', start_bot graph_with_actions []) \<and>
   handle_custom_action (start_bot graph_with_actions []) Map.empty (Some 42) ''when:tutti''
     sample_now sample_now sample_clock =
     (TextMessage (''Ora 2024'' @ [backslash] @ ''-01'' @ [backslash] @ ''-01 10:00:00 per tutti''),
      start_bot graph_with_actions [])"
proof -
  have u: "replace_str ''{user_id}'' ''Unknown'' ''Ciao {user_id}'' = ''Ciao Unknown''"
    by (simp add: replace_str_def)
  have t: "replace_str ''{timestamp}'' (strftime sample_clock) ''Ciao Unknown'' = ''Ciao Unknown''"
    by (simp add: replace_str_def)
  have e: "escape_markdown ''Ciao Unknown'' = ''Ciao Unknown''"
    by (simp add: escape_markdown_def escape_with_def escape_chars_def escape_step_def)
  have m: "process_message_content ''Ciao {user_id}'' Map.empty sample_clock = ''Ciao Unknown''"
    by (simp add: process_message_content_no_user_id u t e)
  have first: "handle_custom_action (start_bot graph_with_actions []) Map.empty (Some 42) ''contact''
      sample_now sample_now sample_clock = (TextMessage ''Ciao Unknown'', start_bot graph_with_actions [])"
    by (simp add: handle_custom_action_def sample_track sample_actions
        execute_standard_action_def action_type_of_def m Let_def)
  have p: "replace_str ''{param}'' ''tutti'' ''Ora {timestamp} per {param}'' =
      ''Ora {timestamp} per tutti''"
    by (simp add: replace_str_def)
  have u': "replace_str ''{user_id}'' ''Unknown'' ''Ora {timestamp} per tutti'' =
      ''Ora {timestamp} per tutti''"
    by (simp add: replace_str_def)
  have clock: "strftime sample_clock = ''2024-01-01 10:00:00''"
    by (simp add: strftime_def sample_clock_def two_digits_def digits_of.simps digit_char_def)
  have t': "replace_str ''{timestamp}'' ''2024-01-01 10:00:00'' ''Ora {timestamp} per tutti'' =
      ''Ora 2024-01-01 10:00:00 per tutti''"
    by (simp add: replace_str_def)
  have e': "escape_markdown ''Ora 2024-01-01 10:00:00 per tutti'' =
      ''Ora 2024'' @ [backslash] @ ''-01'' @ [backslash] @ ''-01 10:00:00 per tutti''"
    by (simp add: escape_markdown_def escape_with_def escape_chars_def escape_step_def
        replace_char_def backslash_def)
  have m': "process_message_content ''Ora {timestamp} per tutti'' Map.empty sample_clock =
      ''Ora 2024'' @ [backslash] @ ''-01'' @ [backslash] @ ''-01 10:00:00 per tutti''"
    by (simp add: process_message_content_no_user_id u' clock t' e')
  have s: "split_max (CHR '':'') 1 ''when:tutti'' = [''when'', ''tutti'']"
    by simp
  have second: "handle_custom_action (start_bot graph_with_actions []) Map.empty (Some 42) ''when:tutti''
      sample_now sample_now sample_clock =
      (TextMessage (''Ora 2024'' @ [backslash] @ ''-01'' @ [backslash] @ ''-01 10:00:00 per tutti''),
       start_bot graph_with_actions [])"
    by (simp add: handle_custom_action_def sample_track s sample_actions
        execute_action_with_params_def action_type_of_def p m' Let_def)
  from first second show ?thesis by (rule conjI)
qed

subsection \<open>Command actions\<close>

lemma unknown_command_sends_nothing:
  assumes "action_type_of a = ''command''"
    and "a_content a \<noteq> ''show_analytics''" and "a_content a \<noteq> ''show_users''"
  shows "execute_standard_action b ud viewer a now seen clock = (Inr NoMessage, b)"
  using assms by (simp add: execute_standard_action_def Let_def)

lemma unknown_command_action_is_silent:
  assumes "CHR '':'' \<notin> set act" and "map_of (actions_of (db b)) act = Some a"
    and "action_type_of a = ''command''"
    and "a_content a \<noteq> ''show_analytics''" and "a_content a \<noteq> ''show_users''"
  shows "fst (handle_custom_action b ud viewer act now seen clock) = NoMessage"
  using assms
  by (simp add: handle_custom_action_def Let_def track_graph actions_of_def
      unknown_command_sends_nothing)

text \<open>
  Claim C4, at a command outside the fixed set. The action \<open>restart\<close> of type command has
  the content \<open>reboot\<close>: executing it sends no message at all, where the claim has the
  command name sent back as a fallback. The fallback message sits on the branch for an
  unknown action type instead, where it reads the command name before it is assigned:
  the action \<open>odd\<close> of type \<open>script\<close> raises and ends in the failure notice.
\<close>

theorem unknown_command_has_no_fallback:
  "handle_custom_action (start_bot graph_with_actions []) Map.empty (Some 42) ''restart''
     sample_now sample_now sample_clock = (NoMessage, start_bot graph_with_actions []) \<and>
   handle_custom_action (start_bot graph_with_actions []) Map.empty (Some 42) ''odd''
     sample_now sample_now sample_clock = (ActionFailed, start_bot graph_with_actions [])"
proof -
  have "execute_standard_action (start_bot graph_with_actions []) Map.empty (Some 42)
      \<lparr>a_type = Some ''command'', a_content = ''reboot'',
        a_url = None, a_text = None, a_created_at = Some sample_now, a_updated_at = None\<rparr>
      sample_now sample_now sample_clock = (Inr NoMessage, start_bot graph_with_actions [])"
    by (rule unknown_command_sends_nothing) (simp_all add: action_type_of_def)
  then have first: "handle_custom_action (start_bot graph_with_actions []) Map.empty (Some 42) ''restart''
      sample_now sample_now sample_clock = (NoMessage, start_bot graph_with_actions [])"
    by (simp add: handle_custom_action_def sample_track sample_actions Let_def)
  have "execute_standard_action (start_bot graph_with_actions []) Map.empty (Some 42)
      \<lparr>a_type = Some ''script'', a_content = ''x'',
        a_url = None, a_text = None, a_created_at = Some sample_now, a_updated_at = None\<rparr>
      sample_now sample_now sample_clock = (Inl UnboundLocalError, start_bot graph_with_actions [])"
    by (simp add: execute_standard_action_def action_type_of_def Let_def)
  then have second: "handle_custom_action (start_bot graph_with_actions []) Map.empty (Some 42) ''odd''
      sample_now sample_now sample_clock = (ActionFailed, start_bot graph_with_actions [])"
    by (simp add: handle_custom_action_def sample_track sample_actions Let_def)
  from first second show ?thesis by (rule conjI)
qed


section \<open>The start command\<close>

text \<open>
  The cached set of administrator ids (\<^verbatim>\<open>admin_users\<close>) is carried next to the bot.
  \<^verbatim>\<open>_sync_admin_users\<close> rebuilds it from the keys of the users whose role is admin,
  reading each key with \<^verbatim>\<open>int\<close>, and saves the graph; a key that does not parse
  raises before anything is changed.
\<close>

fun sync_ids :: "(string \<times> user) list \<Rightarrow> py_exception + int list" where
  "sync_ids [] = Inr []"
| "sync_ids ((k, u) # rest) =
     (if u_role u = ''admin''
      then (case py_int k of
              None \<Rightarrow> Inl ValueError
            | Some n \<Rightarrow> (case sync_ids rest of Inl e \<Rightarrow> Inl e | Inr ns \<Rightarrow> Inr (n # ns)))
      else sync_ids rest)"

text \<open>
  \<^verbatim>\<open>set_user_role\<close>: for a known user the role is stored and the user store saved,
  then the administrator set is rebuilt. The result says whether an exception was
  raised, and gives the state reached.
\<close>

definition set_user_role ::
  "bot \<Rightarrow> int set \<Rightarrow> int \<Rightarrow> string \<Rightarrow> py_exception option \<times> bot \<times> int set" where
  "set_user_role b admins user_id role =
     (case map_of (users b) (str_int user_id) of
        None \<Rightarrow> (None, b, admins)
      | Some u \<Rightarrow>
          let b1 = save_users_database
                     (b\<lparr>users := dict_set (users b) (str_int user_id) (u\<lparr>u_role := role\<rparr>)\<rparr>)
          in (case sync_ids (users b1) of
                Inl e \<Rightarrow> (Some e, b1, admins)
              | Inr ns \<Rightarrow> (None, save_database b1, set ns)))"

datatype start_reply = WelcomeAdmin | MainMenu outcome

text \<open>
  \<^verbatim>\<open>start_command\<close>: the command is tracked, the user registered with the role
  \<open>user\<close> when not yet known, and then either, when there is no administrator, the user
  is made one and greeted, or the view of the main page is tracked and the page shown.
  The function \<open>ts\<close> gives the clock reading at each of the six places that take one.
\<close>

definition start_command ::
  "bot \<Rightarrow> int set \<Rightarrow> int \<Rightarrow> string option \<Rightarrow> string option \<Rightarrow> string option \<Rightarrow> (nat \<Rightarrow> string) \<Rightarrow>
     (py_exception + start_reply) \<times> bot \<times> int set" where
  "start_command b admins user_id username first_name last_name ts =
     (let b1 = update_user_activity b user_id ''command_used'' [(''command'', ''start'')] (ts 0);
          b2 = register_user b1 user_id username first_name last_name ''user'' (ts 1) (ts 2)
      in if admins = {}
         then (case set_user_role b2 (insert user_id admins) user_id ''admin'' of
                 (Some e, b3, admins3) \<Rightarrow> (Inl e, b3, admins3)
               | (None, b3, admins3) \<Rightarrow> (Inr WelcomeAdmin, save_database b3, admins3))
         else
           let b3 = update_user_activity b2 user_id ''page_view'' [(''page_id'', ''main'')] (ts 3);
               shown = show_page b3 (Some user_id) ''main'' (ts 4) (ts 5)
           in (Inr (MainMenu (fst shown)), snd shown, admins))"

subsection \<open>The role of a known user across the start command\<close>

definition same_standing :: "user \<Rightarrow> user \<Rightarrow> bool" where
  "same_standing u u' = (u_role u' = u_role u \<and> u_registered_at u' = u_registered_at u)"

lemma same_standing_refl: "same_standing u u"
  by (simp add: same_standing_def)

lemma same_standing_trans: "same_standing u v \<Longrightarrow> same_standing v w \<Longrightarrow> same_standing u w"
  by (simp add: same_standing_def)

lemma trackers_keep_standing:
  "same_standing u (track_page_view u data)"
  "same_standing u (track_button_click u data)"
  "same_standing u (track_command_usage u data)"
  by (simp_all add: same_standing_def track_page_view_def track_button_click_def
      track_command_usage_def Let_def split: option.splits)

lemma update_user_activity_standing:
  assumes "map_of (users b) k = Some u"
  shows "\<exists>u'. map_of (users (update_user_activity b user_id act data seen)) k = Some u' \<and>
           same_standing u u'"
proof (cases "map_of (users b) (str_int user_id)")
  case None
  with assms show ?thesis by (auto simp: update_user_activity_def same_standing_refl)
next
  case (Some v)
  let ?v1 = "v\<lparr>u_last_seen := seen, u_total_interactions := u_total_interactions v + 1\<rparr>"
  have v1: "same_standing v ?v1" by (simp add: same_standing_def)
  let ?v2 = "(if act = ''page_view'' then track_page_view ?v1 data
              else if act = ''button_click'' then track_button_click ?v1 data
              else if act = ''command_used'' then track_command_usage ?v1 data
              else ?v1)"
  have "same_standing ?v1 ?v2" by (simp add: trackers_keep_standing same_standing_refl)
  with v1 have v2: "same_standing v ?v2" by (rule same_standing_trans)
  have us: "users (update_user_activity b user_id act data seen) =
      dict_set (users b) (str_int user_id) ?v2"
    using Some by (simp add: update_user_activity_def Let_def)
  show ?thesis
  proof (cases "k = str_int user_id")
    case True
    with assms Some have "v = u" by simp
    with v2 True us show ?thesis by (auto simp: map_of_dict_set)
  next
    case False
    with assms us show ?thesis by (auto simp: map_of_dict_set same_standing_refl)
  qed
qed

lemma register_user_known:
  "map_of (users b) (str_int user_id) = Some u \<Longrightarrow>
     register_user b user_id username first_name last_name role registered seen = b"
  by (auto simp: register_user_def dest: map_of_SomeD intro: rev_image_eqI)

lemma get_valid_page_users: "users (snd (get_valid_page b page_id now)) = users b"
  by (simp add: get_valid_page_def create_default_page_def save_database_def
      split: option.splits)

lemma show_page_standing:
  assumes "map_of (users b) k = Some u"
  shows "\<exists>u'. map_of (users (snd (show_page b viewer page_id now seen))) k = Some u' \<and>
           same_standing u u'"
proof (cases "get_valid_page b page_id now")
  case (Pair r b')
  with get_valid_page_users [of b page_id now] have us: "users b' = users b" by simp
  show ?thesis
  proof (cases r)
    case (Inl e)
    with Pair us assms show ?thesis by (auto simp: show_page_def same_standing_refl)
  next
    case (Inr p)
    from assms us have "map_of (users b') k = Some u" by simp
    then have "\<exists>u'. map_of (users (track b' viewer ''page_view'' [(''page_id'', page_id)] seen)) k =
        Some u' \<and> same_standing u u'"
      by (cases viewer) (auto simp: track_def same_standing_refl update_user_activity_standing)
    with Pair Inr show ?thesis by (simp add: show_page_def Let_def)
  qed
qed

lemma set_user_role_known:
  assumes "map_of (users b) (str_int user_id) = Some u"
  shows "map_of (users (fst (snd (set_user_role b admins user_id role)))) (str_int user_id) =
     Some (u\<lparr>u_role := role\<rparr>)"
  using assms
  by (simp add: set_user_role_def Let_def save_users_database_def save_database_def
      map_of_dict_set split: sum.splits)

text \<open>
  For a user already in the store, the start command leaves the registration time as
  it was, and the role as well unless there is no administrator, in which case the
  role becomes \<open>admin\<close>. It never sets the role back to \<open>user\<close>.
\<close>

lemma start_command_role_of_known_user:
  assumes "map_of (users b) (str_int user_id) = Some u"
  shows "\<exists>u'. map_of (users (fst (snd (start_command b admins user_id username first_name
               last_name ts)))) (str_int user_id) = Some u' \<and>
           u_registered_at u' = u_registered_at u \<and>
           u_role u' = (if admins = {} then ''admin'' else u_role u)"
proof -
  let ?k = "str_int user_id"
  let ?b1 = "update_user_activity b user_id ''command_used'' [(''command'', ''start'')] (ts 0)"
  from assms obtain u1 where u1: "map_of (users ?b1) ?k = Some u1" "same_standing u u1"
    using update_user_activity_standing by blast
  then have b2: "register_user ?b1 user_id username first_name last_name ''user'' (ts 1) (ts 2) =
      ?b1"
    by (simp add: register_user_known)
  show ?thesis
  proof (cases "admins = {}")
    case True
    have "map_of (users (fst (snd (set_user_role ?b1 (insert user_id admins) user_id ''admin''))))
        ?k = Some (u1\<lparr>u_role := ''admin''\<rparr>)"
      using u1(1) by (rule set_user_role_known)
    moreover obtain e b3 a3 where r: "set_user_role ?b1 (insert user_id admins) user_id ''admin'' =
        (e, b3, a3)"
      by (cases "set_user_role ?b1 (insert user_id admins) user_id ''admin''") auto
    ultimately have "map_of (users b3) ?k = Some (u1\<lparr>u_role := ''admin''\<rparr>)" by simp
    then have "map_of (users (fst (snd (start_command b admins user_id username first_name
        last_name ts)))) ?k = Some (u1\<lparr>u_role := ''admin''\<rparr>)"
      using True r b2
      by (cases e) (simp_all add: start_command_def Let_def save_database_def)
    with u1(2) True show ?thesis by (simp add: same_standing_def)
  next
    case False
    let ?b3 = "update_user_activity ?b1 user_id ''page_view'' [(''page_id'', ''main'')] (ts 3)"
    from u1(1) obtain u3 where u3: "map_of (users ?b3) ?k = Some u3" "same_standing u1 u3"
      using update_user_activity_standing by blast
    then obtain u4 where u4:
      "map_of (users (snd (show_page ?b3 (Some user_id) ''main'' (ts 4) (ts 5)))) ?k = Some u4"
      "same_standing u3 u4"
      using show_page_standing by blast
    have "same_standing u u4"
      using u1(2) u3(2) u4(2) by (blast intro: same_standing_trans)
    moreover have "users (fst (snd (start_command b admins user_id username first_name
        last_name ts))) = users (snd (show_page ?b3 (Some user_id) ''main'' (ts 4) (ts 5)))"
      using False b2 by (simp add: start_command_def Let_def)
    ultimately show ?thesis using u4(1) False by (simp add: same_standing_def)
  qed
qed

section \<open>Free text in editor mode\<close>

text \<open>
  The handlers that open a multi-step flow store the session with
  \<^verbatim>\<open>_set_user_state\<close>; those for one page, button or action also store its id in the
  session data and under a key of \<^verbatim>\<open>context.user_data\<close>. Only the state they leave is
  modelled, not the prompt they send. The clock is in microseconds.
\<close>

definition start_create_page :: "bot \<Rightarrow> int \<Rightarrow> int \<Rightarrow> bot" where
  "start_create_page b user_id now = set_user_state b user_id ''creating_page'' now []"

definition start_edit_specific_page ::
  "bot \<Rightarrow> user_data \<Rightarrow> int \<Rightarrow> string \<Rightarrow> int \<Rightarrow> bot \<times> user_data" where
  "start_edit_specific_page b ud user_id page_id now =
     (if page_id \<notin> fst ` set (pages_of (db b)) then (b, ud)
      else (set_user_state b user_id ''editing_page'' now [(''page_id'', page_id)],
            ud(''editing_page_'' @ str_int user_id \<mapsto> page_id)))"

definition start_add_button ::
  "bot \<Rightarrow> user_data \<Rightarrow> int \<Rightarrow> string \<Rightarrow> int \<Rightarrow> bot \<times> user_data" where
  "start_add_button b ud user_id page_id now =
     (set_user_state b user_id ''creating_button'' now [(''page_id'', page_id)],
      ud(''adding_button_'' @ str_int user_id \<mapsto> page_id))"

definition start_edit_button ::
  "bot \<Rightarrow> user_data \<Rightarrow> int \<Rightarrow> string \<Rightarrow> int \<Rightarrow> bot \<times> user_data" where
  "start_edit_button b ud user_id button_id now =
     (case find_button_by_id (db b) button_id of
        None \<Rightarrow> (b, ud)
      | Some found \<Rightarrow>
          (set_user_state b user_id ''editing_button'' now [(''button_id'', button_id)],
           ud(''editing_button_'' @ str_int user_id \<mapsto> button_id)))"

definition start_create_action :: "bot \<Rightarrow> int \<Rightarrow> int \<Rightarrow> bot" where
  "start_create_action b user_id now = set_user_state b user_id ''creating_action'' now []"

definition start_edit_action ::
  "bot \<Rightarrow> user_data \<Rightarrow> int \<Rightarrow> string \<Rightarrow> int \<Rightarrow> bot \<times> user_data" where
  "start_edit_action b ud user_id action_id now =
     (if action_id \<notin> fst ` set (actions_of (db b)) then (b, ud)
      else (set_user_state b user_id ''editing_action'' now [(''action_id'', action_id)],
            ud(''editing_action_'' @ str_int user_id \<mapsto> action_id)))"

definition start_edit_welcome :: "bot \<Rightarrow> int \<Rightarrow> int \<Rightarrow> bot" where
  "start_edit_welcome b user_id now = set_user_state b user_id ''editing_welcome'' now []"

definition start_add_admin :: "bot \<Rightarrow> int \<Rightarrow> int \<Rightarrow> bot" where
  "start_add_admin b user_id now = set_user_state b user_id ''adding_admin'' now []"

text \<open>
  The key of the session data that goes with a declared state, as the opening handlers
  store it, and the sessions whose stored context matches their declared state: the
  data holds exactly that key, or nothing for a state without a target.
\<close>

definition context_key :: "string \<Rightarrow> string option" where
  "context_key state =
     (if state = ''editing_page'' \<or> state = ''creating_button'' then Some ''page_id''
      else if state = ''editing_button'' then Some ''button_id''
      else if state = ''editing_action'' then Some ''action_id''
      else None)"

definition context_matches_state :: "session \<Rightarrow> bool" where
  "context_matches_state s =
     (case context_key (s_state s) of
        None \<Rightarrow> s_data s = []
      | Some k \<Rightarrow> map fst (s_data s) = [k])"

lemma opened_sessions_match:
  "context_matches_state (the (user_states (start_create_page b u now) u))"
  "context_matches_state (the (user_states (fst (start_add_button b ud u page_id now)) u))"
  "context_matches_state (the (user_states (start_create_action b u now) u))"
  "context_matches_state (the (user_states (start_edit_welcome b u now) u))"
  "context_matches_state (the (user_states (start_add_admin b u now) u))"
  by (simp_all add: context_matches_state_def context_key_def set_user_state_def
      start_create_page_def start_add_button_def start_create_action_def
      start_edit_welcome_def start_add_admin_def)

lemma opened_target_sessions_match:
  "page_id \<in> fst ` set (pages_of (db b)) \<Longrightarrow>
     context_matches_state
       (the (user_states (fst (start_edit_specific_page b ud u page_id now)) u))"
  "find_button_by_id (db b) button_id = Some found \<Longrightarrow>
     context_matches_state (the (user_states (fst (start_edit_button b ud u button_id now)) u))"
  "action_id \<in> fst ` set (actions_of (db b)) \<Longrightarrow>
     context_matches_state (the (user_states (fst (start_edit_action b ud u action_id now)) u))"
  by (simp_all add: context_matches_state_def context_key_def set_user_state_def
      start_edit_specific_page_def start_edit_button_def start_edit_action_def)












end
